theory Spec2Isabelle
  imports Complex_Main
begin

section \<open>Domain model (api/models.py)\<close>

text \<open>
  The two Python enumerations \<open>StrokeType\<close>/\<open>Stroke\<close> and the two enumerations
  \<open>StepType\<close> (api/models.py and swim_workout.py) carry the same members with the
  same integer codes; each pair is one datatype here, with its code function.
\<close>

datatype StrokeType = ANY | BACKSTROKE | BREASTSTROKE | BUTTERFLY | FREESTYLE | MIXED | IM

datatype StepType = WARMUP | COOLDOWN | INTERVAL | RECOVERY | REST | REPEAT

fun StrokeType_value :: "StrokeType \<Rightarrow> int" where
  "StrokeType_value ANY = 1"
| "StrokeType_value BACKSTROKE = 2"
| "StrokeType_value BREASTSTROKE = 3"
| "StrokeType_value BUTTERFLY = 4"
| "StrokeType_value FREESTYLE = 5"
| "StrokeType_value MIXED = 6"
| "StrokeType_value IM = 7"

fun StepType_value :: "StepType \<Rightarrow> int" where
  "StepType_value WARMUP = 1"
| "StepType_value COOLDOWN = 2"
| "StepType_value INTERVAL = 3"
| "StepType_value RECOVERY = 4"
| "StepType_value REST = 5"
| "StepType_value REPEAT = 6"

text \<open>Errors of the Python code are values: the exception classes that can be raised.\<close>

datatype error = TypeError | AttributeError | ValueError | OverflowError | ValidationError | OSError

definition bind_err :: "error + 'a \<Rightarrow> ('a \<Rightarrow> error + 'b) \<Rightarrow> error + 'b" where
  "bind_err m f = (case m of Inl e \<Rightarrow> Inl e | Inr x \<Rightarrow> f x)"

text \<open>The enum constructors \<open>StrokeType(n)\<close> and \<open>StepType(n)\<close> raise ValueError on a
  number that is no member's code.\<close>

definition StrokeType_of :: "int \<Rightarrow> error + StrokeType" where
  "StrokeType_of n =
     (if n = 1 then Inr ANY else if n = 2 then Inr BACKSTROKE
      else if n = 3 then Inr BREASTSTROKE else if n = 4 then Inr BUTTERFLY
      else if n = 5 then Inr FREESTYLE else if n = 6 then Inr MIXED
      else if n = 7 then Inr IM else Inl ValueError)"

definition StepType_of :: "int \<Rightarrow> error + StepType" where
  "StepType_of n =
     (if n = 1 then Inr WARMUP else if n = 2 then Inr COOLDOWN
      else if n = 3 then Inr INTERVAL else if n = 4 then Inr RECOVERY
      else if n = 5 then Inr REST else if n = 6 then Inr REPEAT
      else Inl ValueError)"

record Equipment =
  pull_buoy :: bool
  paddles :: bool
  fins :: bool
  kickboard :: bool
  snorkel :: bool

definition Equipment_default :: Equipment where
  "Equipment_default = \<lparr>pull_buoy = False, paddles = False, fins = False,
     kickboard = False, snorkel = False\<rparr>"

text \<open>
  \<open>WorkoutStep\<close>, \<open>RepeatGroup\<close> and \<open>Workout\<close>. The fields \<open>id\<close>, \<open>step_type\<close> and
  \<open>steps\<close> occur in several classes; the records name them per class
  (\<open>step_id\<close>, \<open>group_id\<close>, \<open>workout_id\<close>, \<open>group_step_type\<close>, \<open>group_steps\<close>).
  Python's \<open>float\<close> pool length is a rational number. The field \<open>steps\<close> of a
  RepeatGroup is declared \<open>list[WorkoutStep]\<close>: its elements are leaf steps.
\<close>

record WorkoutStep =
  step_id :: string
  step_type :: StepType
  stroke :: StrokeType
  distance_m :: int
  duration_seconds :: "int option"
  zone :: "int option"
  description :: "string option"
  equipment :: Equipment

record RepeatGroup =
  group_id :: string
  group_step_type :: StepType
  iterations :: int
  group_steps :: "WorkoutStep list"

datatype entry = Step WorkoutStep | Group RepeatGroup

record Workout =
  workout_id :: string
  name :: string
  pool_length :: rat
  steps :: "entry list"

subsection \<open>Field validation of the model constructors\<close>

text \<open>
  The constructors validate the declared field constraints and raise a validation
  error otherwise: \<open>distance_m\<close> is at least 0, \<open>zone\<close> lies in 1..5 when given,
  \<open>iterations\<close> is an integer at least 1, every element of a RepeatGroup's \<open>steps\<close> is a
  WorkoutStep, and a workout name has at most 80 characters. The functions take the
  arguments the converters pass.
\<close>

definition WorkoutStep_init ::
  "string \<Rightarrow> StepType \<Rightarrow> StrokeType \<Rightarrow> int \<Rightarrow> int option \<Rightarrow> int option \<Rightarrow> string option
     \<Rightarrow> Equipment \<Rightarrow> error + WorkoutStep" where
  "WorkoutStep_init i t s d dur z desc eq =
     (if d < 0 then Inl ValidationError
      else if (case z of None \<Rightarrow> False | Some n \<Rightarrow> n < 1 \<or> 5 < n) then Inl ValidationError
      else Inr \<lparr>step_id = i, step_type = t, stroke = s, distance_m = d,
                duration_seconds = dur, zone = z, description = desc, equipment = eq\<rparr>)"

fun as_WorkoutStep :: "entry \<Rightarrow> error + WorkoutStep" where
  "as_WorkoutStep (Step s) = Inr s"
| "as_WorkoutStep (Group g) = Inl ValidationError"

fun validate_steps :: "entry list \<Rightarrow> error + WorkoutStep list" where
  "validate_steps [] = Inr []"
| "validate_steps (e # es) =
     bind_err (as_WorkoutStep e) (\<lambda>s. bind_err (validate_steps es) (\<lambda>ss. Inr (s # ss)))"

definition RepeatGroup_init :: "string \<Rightarrow> int option \<Rightarrow> entry list \<Rightarrow> error + RepeatGroup" where
  "RepeatGroup_init i n es =
     (case n of
        None \<Rightarrow> Inl ValidationError
      | Some k \<Rightarrow>
          if k < 1 then Inl ValidationError
          else bind_err (validate_steps es) (\<lambda>ss.
                 Inr \<lparr>group_id = i, group_step_type = REPEAT, iterations = k,
                      group_steps = ss\<rparr>))"


subsection \<open>Total distance (Workout.total_distance)\<close>

text \<open>The loop of the property: a group adds the plain sum of its children's
  \<open>distance_m\<close> times its iterations; a top-level step adds its distance unless it is
  a REST step.\<close>

fun total_distance_loop :: "entry list \<Rightarrow> int \<Rightarrow> int" where
  "total_distance_loop [] total' = total'"
| "total_distance_loop (Group g # rest) total' =
     total_distance_loop rest (total' + sum_list (map distance_m (group_steps g)) * iterations g)"
| "total_distance_loop (Step s # rest) total' =
     total_distance_loop rest (if step_type s \<noteq> REST then total' + distance_m s else total')"

definition total_distance :: "Workout \<Rightarrow> int" where
  "total_distance w = total_distance_loop (steps w) 0"

text \<open>The derived attribute as the specification words it: a REST step contributes 0
  wherever it stands, any other step its distance, a group the sum over its children
  under the same rule times its iteration count.\<close>

definition spec_step_distance :: "WorkoutStep \<Rightarrow> int" where
  "spec_step_distance s = (if step_type s = REST then 0 else distance_m s)"

fun spec_entry_distance :: "entry \<Rightarrow> int" where
  "spec_entry_distance (Step s) = spec_step_distance s"
| "spec_entry_distance (Group g) =
     sum_list (map spec_step_distance (group_steps g)) * iterations g"

definition spec_total_distance :: "Workout \<Rightarrow> int" where
  "spec_total_distance w = sum_list (map spec_entry_distance (steps w))"

section \<open>Record store (api/services/workout_service.py)\<close>

text \<open>
  The storage directory holds one JSON document per workout, named by its id; a file
  is written with the full dump of the workout and read back by the Workout
  constructor. Two views of it follow. The first is the map from ids to the workouts
  their files hold: it is the directory as long as every id is a plain file name, so
  that different ids name different files of the directory. The second is the files
  themselves, reached through \<open>get_workout_path\<close>, where two ids can name one file and
  a write can fail.
\<close>

subsection \<open>The store by id\<close>

type_synonym store = "string \<rightharpoonup> Workout"

definition get_workout :: "string \<Rightarrow> store \<Rightarrow> Workout option" where
  "get_workout workout_id' st = st workout_id'"

definition delete_workout :: "string \<Rightarrow> store \<Rightarrow> bool \<times> store" where
  "delete_workout workout_id' st =
     (if workout_id' \<in> dom st then (True, st(workout_id' := None)) else (False, st))"

definition replace_workout_id :: "string \<Rightarrow> string \<Rightarrow> store \<Rightarrow> bool \<times> store" where
  "replace_workout_id old_id new_id st =
     (case get_workout old_id st of
        None \<Rightarrow> (False, st)
      | Some workout \<Rightarrow>
          let workout' = workout\<lparr>workout_id := new_id\<rparr>;
              st1 = st(new_id \<mapsto> workout');
              st2 = (if old_id \<in> dom st1 then st1(old_id := None) else st1)
          in (True, st2))"

subsection \<open>The store as files\<close>

text \<open>
  \<open>get_workout_path\<close> is \<open>WORKOUT_DIR / f"{workout_id}.json"\<close>. Joining a path
  with a text splits the text at the slashes and drops the empty components and the
  components \<open>.\<close>; a text that begins with a slash replaces the directory (exactly
  two leading slashes are kept as a root of their own). A path is its anchor and its
  components.
\<close>

datatype anchor = WORKOUT_DIR | Root | DoubleRoot

datatype path = Path anchor "string list"

fun split_slash :: "string \<Rightarrow> string list" where
  "split_slash [] = [[]]"
| "split_slash (c # cs) =
     (if c = CHR ''/'' then [] # split_slash cs
      else (case split_slash cs of [] \<Rightarrow> [[c]] | x # xs \<Rightarrow> (c # x) # xs))"

definition path_parts :: "string \<Rightarrow> string list" where
  "path_parts s = filter (\<lambda>p. p \<noteq> [] \<and> p \<noteq> ''.'') (split_slash s)"

definition get_workout_path :: "string \<Rightarrow> path" where
  "get_workout_path workout_id' =
     (let s = workout_id' @ ''.json''
      in if take 1 s = ''/''
         then Path (if take 2 s = ''//'' \<and> take 3 s \<noteq> ''///'' then DoubleRoot else Root)
                (path_parts s)
         else Path WORKOUT_DIR (path_parts s))"

text \<open>
  Which file a path names belongs to the file system, not to the repository: the
  function \<open>resolve\<close> gives the file a path names, or \<open>None\<close> when the path names no
  file that can exist (its directory is missing or cannot be written); it is a
  parameter of the operations. The files hold workouts. A path exists when it names
  a file that is there; writing to a path that names no file raises, writing to one
  that does creates or overwrites the file; \<open>unlink\<close> removes the file.
\<close>

type_synonym resolver = "path \<Rightarrow> path option"

type_synonym files = "path \<rightharpoonup> Workout"

definition path_exists :: "resolver \<Rightarrow> files \<Rightarrow> path \<Rightarrow> bool" where
  "path_exists resolve fs p = (case resolve p of None \<Rightarrow> False | Some f \<Rightarrow> f \<in> dom fs)"

definition read_workout :: "resolver \<Rightarrow> files \<Rightarrow> path \<Rightarrow> Workout option" where
  "read_workout resolve fs p = (case resolve p of None \<Rightarrow> None | Some f \<Rightarrow> fs f)"

definition write_text :: "resolver \<Rightarrow> files \<Rightarrow> path \<Rightarrow> Workout \<Rightarrow> error + files" where
  "write_text resolve fs p workout =
     (case resolve p of None \<Rightarrow> Inl OSError | Some f \<Rightarrow> Inr (fs(f \<mapsto> workout)))"

definition unlink :: "resolver \<Rightarrow> files \<Rightarrow> path \<Rightarrow> error + files" where
  "unlink resolve fs p =
     (case resolve p of
        None \<Rightarrow> Inl OSError
      | Some f \<Rightarrow> if f \<in> dom fs then Inr (fs(f := None)) else Inl OSError)"

definition get_workout_file :: "resolver \<Rightarrow> string \<Rightarrow> files \<Rightarrow> Workout option" where
  "get_workout_file resolve workout_id' fs =
     (let path' = get_workout_path workout_id'
      in if \<not> path_exists resolve fs path' then None else read_workout resolve fs path')"

definition replace_workout_id_file ::
  "resolver \<Rightarrow> string \<Rightarrow> string \<Rightarrow> files \<Rightarrow> error + (bool \<times> files)" where
  "replace_workout_id_file resolve old_id new_id fs =
     (case get_workout_file resolve old_id fs of
        None \<Rightarrow> Inr (False, fs)
      | Some workout \<Rightarrow>
         (let workout' = workout\<lparr>workout_id := new_id\<rparr>;
              new_path = get_workout_path new_id
          in bind_err (write_text resolve fs new_path workout') (\<lambda>fs1.
               let old_path = get_workout_path old_id
               in if path_exists resolve fs1 old_path
                  then bind_err (unlink resolve fs1 old_path) (\<lambda>fs2. Inr (True, fs2))
                  else Inr (True, fs1))))"

text \<open>The store by id that a set of files gives: what \<open>get_workout\<close> finds under each
  id.\<close>

definition store_of :: "resolver \<Rightarrow> files \<Rightarrow> store" where
  "store_of resolve fs = (\<lambda>workout_id'. get_workout_file resolve workout_id' fs)"

text \<open>A flat storage directory: the paths that name a file are those with one
  component under \<open>WORKOUT_DIR\<close>.\<close>

fun flat_directory :: resolver where
  "flat_directory (Path WORKOUT_DIR [n]) = Some (Path WORKOUT_DIR [n])"
| "flat_directory (Path a ps) = None"

section \<open>Wire format\<close>

text \<open>
  The platform's workout object, as the builder produces it (objects of the
  \<open>garminconnect\<close> classes ExecutableStep, RepeatGroup, WorkoutSegment and
  SwimmingWorkout) and as the wire-to-domain converter reads it (nested dictionaries):
  an attribute of the object is a key of the dictionary. A key is absent, holds
  \<open>null\<close> (Python's \<open>None\<close>), or holds a value of the type the wire format gives it.
  A Python float is the rational number it denotes.
\<close>

datatype 'a field = Absent | Null | Val 'a

text \<open>\<open>d.get(key, default)\<close> and \<open>d.get(key)\<close>; the result \<open>None\<close> is Python's \<open>None\<close>.\<close>

definition get_default :: "'a field \<Rightarrow> 'a \<Rightarrow> 'a option" where
  "get_default f d = (case f of Absent \<Rightarrow> Some d | Null \<Rightarrow> None | Val v \<Rightarrow> Some v)"

definition get_field :: "'a field \<Rightarrow> 'a option" where
  "get_field f = (case f of Absent \<Rightarrow> None | Null \<Rightarrow> None | Val v \<Rightarrow> Some v)"

text \<open>An optional argument stored in an attribute: \<open>None\<close> is stored as \<open>null\<close>.\<close>

definition of_option :: "'a option \<Rightarrow> 'a field" where
  "of_option x = (case x of None \<Rightarrow> Null | Some v \<Rightarrow> Val v)"

record stepType_dict =
  stepTypeId :: "int field"
  stepTypeKey :: "string field"
  stepType_displayOrder :: "int field"

record condition_dict =
  conditionTypeId :: "int field"
  conditionTypeKey :: "string field"
  condition_displayOrder :: "int field"
  displayable :: "bool field"

record target_dict =
  workoutTargetTypeId :: "int field"
  workoutTargetTypeKey :: "string field"
  target_displayOrder :: "int field"

record stroke_dict =
  strokeTypeId :: "int field"
  strokeTypeKey :: "string field"
  stroke_displayOrder :: "int field"

record unit_dict =
  unitId :: "int field"
  unitKey :: "string field"
  factor :: "rat field"

record sport_dict =
  sportTypeId :: "int field"
  sportTypeKey :: "string field"
  sport_displayOrder :: "int field"

record step_fields =
  stepOrder :: "int field"
  stepType :: "stepType_dict field"
  endCondition :: "condition_dict field"
  endConditionValue :: "rat field"
  preferredEndConditionUnit :: "unit_dict field"
  targetType :: "target_dict field"
  strokeType :: "stroke_dict field"
  zoneNumber :: "int field"
  step_description :: "string field"
  numberOfIterations :: "int field"
  smartRepeat :: "bool field"

datatype wire_step = WireStep (attrs: step_fields) (workoutSteps: "wire_step list field")

record segment =
  segmentOrder :: "int field"
  segment_sportType :: "sport_dict field"
  segment_workoutSteps :: "wire_step list field"

record wire_workout =
  workoutId :: "int field"
  workoutName :: "string field"
  sportType :: "sport_dict field"
  estimatedDurationInSecs :: "int field"
  workoutSegments :: "segment list field"
  poolLength :: "rat field"
  poolLengthUnit :: "unit_dict field"

text \<open>The empty dictionary \<open>{}\<close> of each shape, and a step with no key set.\<close>

definition empty_stepType :: stepType_dict where
  "empty_stepType = \<lparr>stepTypeId = Absent, stepTypeKey = Absent, stepType_displayOrder = Absent\<rparr>"

definition empty_condition :: condition_dict where
  "empty_condition = \<lparr>conditionTypeId = Absent, conditionTypeKey = Absent,
     condition_displayOrder = Absent, displayable = Absent\<rparr>"

definition empty_stroke :: stroke_dict where
  "empty_stroke = \<lparr>strokeTypeId = Absent, strokeTypeKey = Absent, stroke_displayOrder = Absent\<rparr>"

definition empty_step :: step_fields where
  "empty_step = \<lparr>stepOrder = Absent, stepType = Absent, endCondition = Absent,
     endConditionValue = Absent, preferredEndConditionUnit = Absent, targetType = Absent,
     strokeType = Absent, zoneNumber = Absent, step_description = Absent,
     numberOfIterations = Absent, smartRepeat = Absent\<rparr>"

section \<open>Python numbers and strings\<close>

text \<open>\<open>str(n)\<close> of an integer: its decimal digits, with a minus sign when negative.\<close>

function str_nat :: "nat \<Rightarrow> string" where
  "str_nat n = (if n < 10 then [''0123456789'' ! n]
                else str_nat (n div 10) @ [''0123456789'' ! (n mod 10)])"
  by pat_completeness auto
termination
  by (relation "measure (\<lambda>n. n)") auto

declare str_nat.simps [simp del]

definition str_int :: "int \<Rightarrow> string" where
  "str_int i = (if i < 0 then CHR ''-'' # str_nat (nat (- i)) else str_nat (nat i))"

text \<open>\<open>int(x)\<close> of a float truncates toward zero; \<open>int(None)\<close> raises TypeError.\<close>

definition trunc :: "rat \<Rightarrow> int" where
  "trunc r = (if 0 \<le> r then \<lfloor>r\<rfloor> else \<lceil>r\<rceil>)"

definition py_int :: "rat option \<Rightarrow> error + int" where
  "py_int v = (case v of None \<Rightarrow> Inl TypeError | Some r \<Rightarrow> Inr (trunc r))"

text \<open>
  Floats are IEEE 754 doubles: 53 significant bits, round to nearest, ties to even.
  \<open>round_to_double p\<close> rounds the natural number \<open>p\<close> to 53 significant bits.
  \<open>float(n)\<close> of an integer is the nearest double and raises OverflowError when that
  is not finite (from \<open>2^1024\<close> on); the result is a whole number, returned as an
  integer.
\<close>

function bit_length :: "nat \<Rightarrow> nat" where
  "bit_length n = (if n = 0 then 0 else Suc (bit_length (n div 2)))"
  by pat_completeness auto
termination
  by (relation "measure (\<lambda>n. n)") auto

declare bit_length.simps [simp del]

definition round_to_double :: "nat \<Rightarrow> nat" where
  "round_to_double p =
     (if bit_length p \<le> 53 then p
      else let k = bit_length p - 53; q = p div 2 ^ k; r = p mod 2 ^ k
           in if 2 ^ k < 2 * r \<or> (2 * r = 2 ^ k \<and> odd q) then (q + 1) * 2 ^ k else q * 2 ^ k)"

definition float_of_int :: "int \<Rightarrow> error + int" where
  "float_of_int n =
     (let m = round_to_double (nat \<bar>n\<bar>)
      in if 2 ^ 1024 \<le> m then Inl OverflowError else Inr (sgn n * int m))"

text \<open>
  The constant \<open>1.2\<close> is the double \<open>5404319552844595 / 2^52\<close>. The product
  \<open>distance_m * 1.2\<close> converts the integer to a float, multiplies exactly and rounds
  to a double; \<open>int\<close> of it truncates toward zero, and raises OverflowError on an
  infinite product.
\<close>

definition float_1_2_mantissa :: nat where
  "float_1_2_mantissa = 5404319552844595"

definition estimate_swim_time :: "int \<Rightarrow> error + int" where
  "estimate_swim_time distance_m' =
     bind_err (float_of_int distance_m') (\<lambda>x.
       let p = round_to_double (nat \<bar>x\<bar> * float_1_2_mantissa)
       in if 2 ^ 1076 \<le> p then Inl OverflowError else Inr (sgn x * int (p div 2 ^ 52)))"

section \<open>Workout builder (swim_workout.py)\<close>

text \<open>
  The builder object: its attributes \<open>name\<close>, \<open>pool_length\<close>, \<open>steps\<close>,
  \<open>_step_order\<close> and \<open>_estimated_duration\<close>. A method mutates the builder and returns
  it; here it maps the builder to the new one, or to the exception it raises.
\<close>

record SwimWorkoutBuilder =
  builder_name :: string
  builder_pool_length :: rat
  builder_steps :: "wire_step list"
  step_order :: int
  estimated_duration :: int

definition create_swim_workout :: "string \<Rightarrow> rat \<Rightarrow> SwimWorkoutBuilder" where
  "create_swim_workout name' pool_length' =
     \<lparr>builder_name = take 80 name', builder_pool_length = pool_length', builder_steps = [],
      step_order = 0, estimated_duration = 0\<rparr>"

fun STROKE_KEYS :: "StrokeType \<Rightarrow> string" where
  "STROKE_KEYS ANY = ''any_stroke''"
| "STROKE_KEYS BACKSTROKE = ''backstroke''"
| "STROKE_KEYS BREASTSTROKE = ''breaststroke''"
| "STROKE_KEYS BUTTERFLY = ''butterfly''"
| "STROKE_KEYS FREESTYLE = ''freestyle''"
| "STROKE_KEYS MIXED = ''mixed''"
| "STROKE_KEYS IM = ''im''"

fun STEP_TYPE_KEYS :: "StepType \<Rightarrow> string" where
  "STEP_TYPE_KEYS WARMUP = ''warmup''"
| "STEP_TYPE_KEYS COOLDOWN = ''cooldown''"
| "STEP_TYPE_KEYS INTERVAL = ''interval''"
| "STEP_TYPE_KEYS RECOVERY = ''recovery''"
| "STEP_TYPE_KEYS REST = ''rest''"
| "STEP_TYPE_KEYS REPEAT = ''repeat''"

definition stroke_type_dict :: "StrokeType \<Rightarrow> stroke_dict" where
  "stroke_type_dict s = \<lparr>strokeTypeId = Val (StrokeType_value s),
     strokeTypeKey = Val (STROKE_KEYS s), stroke_displayOrder = Val 1\<rparr>"

definition step_type_dict :: "StepType \<Rightarrow> stepType_dict" where
  "step_type_dict t = \<lparr>stepTypeId = Val (StepType_value t),
     stepTypeKey = Val (STEP_TYPE_KEYS t), stepType_displayOrder = Val (StepType_value t)\<rparr>"

definition distance_condition :: condition_dict where
  "distance_condition = \<lparr>conditionTypeId = Val 3, conditionTypeKey = Val ''distance'',
     condition_displayOrder = Val 2, displayable = Val True\<rparr>"

definition time_condition :: condition_dict where
  "time_condition = \<lparr>conditionTypeId = Val 2, conditionTypeKey = Val ''time'',
     condition_displayOrder = Val 2, displayable = Val True\<rparr>"

definition rest_condition :: condition_dict where
  "rest_condition = \<lparr>conditionTypeId = Val 8, conditionTypeKey = Val ''fixed.rest'',
     condition_displayOrder = Val 8, displayable = Val True\<rparr>"

definition lap_button_condition :: condition_dict where
  "lap_button_condition = \<lparr>conditionTypeId = Val 1, conditionTypeKey = Val ''lap.button'',
     condition_displayOrder = Val 1, displayable = Val True\<rparr>"

definition iterations_condition :: condition_dict where
  "iterations_condition = \<lparr>conditionTypeId = Val 7, conditionTypeKey = Val ''iterations'',
     condition_displayOrder = Val 7, displayable = Val False\<rparr>"

definition no_target :: target_dict where
  "no_target = \<lparr>workoutTargetTypeId = Val 1, workoutTargetTypeKey = Val ''no.target'',
     target_displayOrder = Val 1\<rparr>"

definition hr_zone_target :: "int \<Rightarrow> target_dict" where
  "hr_zone_target zone' = \<lparr>workoutTargetTypeId = Val 4,
     workoutTargetTypeKey = Val ''heart.rate.zone'', target_displayOrder = Val 1\<rparr>"

definition distance_unit :: unit_dict where
  "distance_unit = \<lparr>unitId = Val 1, unitKey = Val ''meter'', factor = Val 100\<rparr>"

text \<open>The truth value of an optional integer: \<open>None\<close> and 0 are false.\<close>

definition truthy_int :: "int option \<Rightarrow> bool" where
  "truthy_int z = (case z of None \<Rightarrow> False | Some n \<Rightarrow> n \<noteq> 0)"

text \<open>
  A distance step of the given kind: the body shared by \<open>warmup\<close>, \<open>cooldown\<close> and
  \<open>swim\<close>, which differ in the step type, the target and the zone number.
\<close>

definition distance_step ::
  "StepType \<Rightarrow> target_dict \<Rightarrow> int field \<Rightarrow> int \<Rightarrow> StrokeType \<Rightarrow> string option
     \<Rightarrow> SwimWorkoutBuilder \<Rightarrow> error + SwimWorkoutBuilder" where
  "distance_step kind target zone_number distance_m' stroke' description' b =
     bind_err (estimate_swim_time distance_m') (\<lambda>t.
       let b1 = b\<lparr>estimated_duration := estimated_duration b + t\<rparr>;
           b2 = b1\<lparr>step_order := step_order b1 + 1\<rparr>
       in bind_err (float_of_int distance_m') (\<lambda>v.
            let step = WireStep
                  (empty_step\<lparr>stepOrder := Val (step_order b2),
                     stepType := Val (step_type_dict kind),
                     endCondition := Val distance_condition,
                     endConditionValue := Val (of_int v),
                     preferredEndConditionUnit := Val distance_unit,
                     targetType := Val target,
                     strokeType := Val (stroke_type_dict stroke'),
                     step_description := of_option description',
                     zoneNumber := zone_number\<rparr>) Absent
            in Inr (b2\<lparr>builder_steps := builder_steps b2 @ [step]\<rparr>)))"

definition warmup ::
  "int \<Rightarrow> StrokeType \<Rightarrow> string option \<Rightarrow> SwimWorkoutBuilder \<Rightarrow> error + SwimWorkoutBuilder" where
  "warmup distance_m' stroke' description' b =
     distance_step WARMUP no_target Absent distance_m' stroke' description' b"

definition cooldown ::
  "int \<Rightarrow> StrokeType \<Rightarrow> string option \<Rightarrow> SwimWorkoutBuilder \<Rightarrow> error + SwimWorkoutBuilder" where
  "cooldown distance_m' stroke' description' b =
     distance_step COOLDOWN no_target Absent distance_m' stroke' description' b"

definition swim ::
  "int \<Rightarrow> StrokeType \<Rightarrow> int option \<Rightarrow> string option \<Rightarrow> SwimWorkoutBuilder
     \<Rightarrow> error + SwimWorkoutBuilder" where
  "swim distance_m' stroke' zone' description' b =
     distance_step INTERVAL
       (if truthy_int zone' then hr_zone_target (the zone') else no_target)
       (if truthy_int zone' then Val (the zone') else Absent)
       distance_m' stroke' description' b"

definition rest :: "int \<Rightarrow> string option \<Rightarrow> SwimWorkoutBuilder \<Rightarrow> error + SwimWorkoutBuilder" where
  "rest seconds description' b =
     (let b1 = b\<lparr>estimated_duration := estimated_duration b + seconds\<rparr>;
          b2 = b1\<lparr>step_order := step_order b1 + 1\<rparr>
      in bind_err (float_of_int seconds) (\<lambda>v.
           let step = WireStep
                 (empty_step\<lparr>stepOrder := Val (step_order b2),
                    stepType := Val (step_type_dict REST),
                    endCondition := Val rest_condition,
                    endConditionValue := Val (of_int v),
                    targetType := Val no_target,
                    step_description := of_option description'\<rparr>) Absent
           in Inr (b2\<lparr>builder_steps := builder_steps b2 @ [step]\<rparr>)))"

definition rest_until_button :: "string option \<Rightarrow> SwimWorkoutBuilder \<Rightarrow> error + SwimWorkoutBuilder" where
  "rest_until_button description' b =
     (let b1 = b\<lparr>estimated_duration := estimated_duration b + 30\<rparr>;
          b2 = b1\<lparr>step_order := step_order b1 + 1\<rparr>;
          step = WireStep
                 (empty_step\<lparr>stepOrder := Val (step_order b2),
                    stepType := Val (step_type_dict REST),
                    endCondition := Val lap_button_condition,
                    targetType := Val no_target,
                    step_description := of_option description'\<rparr>) Absent
      in Inr (b2\<lparr>builder_steps := builder_steps b2 @ [step]\<rparr>))"

text \<open>The renumbering loop of \<open>repeat\<close>: \<open>step.stepOrder = i\<close> for \<open>i\<close> from 1.\<close>

fun renumber :: "int \<Rightarrow> wire_step list \<Rightarrow> wire_step list" where
  "renumber i [] = []"
| "renumber i (WireStep f ws # rest') = WireStep (f\<lparr>stepOrder := Val i\<rparr>) ws # renumber (i + 1) rest'"

definition repeat ::
  "int \<Rightarrow> (SwimWorkoutBuilder \<Rightarrow> error + SwimWorkoutBuilder) \<Rightarrow> SwimWorkoutBuilder
     \<Rightarrow> error + SwimWorkoutBuilder" where
  "repeat times' steps_fn b =
     (let inner_builder = (create_swim_workout (builder_name b) (builder_pool_length b))
            \<lparr>step_order := 0\<rparr>
      in bind_err (steps_fn inner_builder) (\<lambda>inner.
           let inner_steps = renumber 1 (builder_steps inner);
               b1 = b\<lparr>estimated_duration :=
                       estimated_duration b + estimated_duration inner * times'\<rparr>;
               b2 = b1\<lparr>step_order := step_order b1 + 1\<rparr>
           in bind_err (float_of_int times') (\<lambda>v.
                let repeat_group = WireStep
                      (empty_step\<lparr>stepOrder := Val (step_order b2),
                         stepType := Val (step_type_dict REPEAT),
                         numberOfIterations := Val times',
                         endCondition := Val iterations_condition,
                         endConditionValue := Val (of_int v),
                         smartRepeat := Val False\<rparr>) (Val inner_steps)
                in Inr (b2\<lparr>builder_steps := builder_steps b2 @ [repeat_group]\<rparr>))))"

definition swimming_sport :: sport_dict where
  "swimming_sport = \<lparr>sportTypeId = Val 4, sportTypeKey = Val ''lap_swimming'',
     sport_displayOrder = Val 1\<rparr>"

definition build :: "SwimWorkoutBuilder \<Rightarrow> wire_workout" where
  "build b =
     (let segment' = \<lparr>segmentOrder = Val 1, segment_sportType = Val swimming_sport,
                      segment_workoutSteps = Val (builder_steps b)\<rparr>
      in \<lparr>workoutId = Absent, workoutName = Val (builder_name b),
          sportType = Val swimming_sport,
          estimatedDurationInSecs = Val (estimated_duration b),
          workoutSegments = Val [segment'],
          poolLength = Val (builder_pool_length b),
          poolLengthUnit = Val distance_unit\<rparr>)"

section \<open>Wire to domain (garmin_to_workout)\<close>

text \<open>
  \<open>convert_garmin_step\<close> with its counter \<open>step_counter\<close> passed in and returned: the
  counter is incremented first, and the step id is \<open>step-<n>\<close>. The loop over the
  inner steps of a repeat group is \<open>convert_garmin_steps\<close>; the same loop converts the
  top-level steps.
\<close>

text \<open>The part of \<open>convert_garmin_step\<close> after the repeat check ("Regular step"):
  it takes the step id and the step type code read so far. \<open>stroke_id_of\<close> is its
  first statement, the stroke code read from the step.\<close>

definition stroke_id_of :: "step_fields \<Rightarrow> int option" where
  "stroke_id_of g_step =
     (case strokeType g_step of
        Val stroke_type \<Rightarrow>
          if stroke_type \<noteq> empty_stroke
          then get_default (strokeTypeId stroke_type) 5 else Some 5
      | Absent \<Rightarrow> Some 5
      | Null \<Rightarrow> Some 5)"

definition regular_step :: "string \<Rightarrow> int option \<Rightarrow> step_fields \<Rightarrow> error + WorkoutStep" where
  "regular_step step_id' step_type_id g_step =
     (case stroke_id_of g_step of
        None \<Rightarrow> Inl TypeError
      | Some stroke_id1 \<Rightarrow>
         (let stroke_id2 = (if stroke_id1 < 1 \<or> 7 < stroke_id1 then 5 else stroke_id1)
          in (case step_type_id of
                None \<Rightarrow> Inl TypeError
              | Some step_type_id1 \<Rightarrow>
                 (let step_type_id2 =
                        (if step_type_id1 < 1 \<or> 6 < step_type_id1 then 3 else step_type_id1)
                  in (case get_default (endCondition g_step) empty_condition of
                        None \<Rightarrow> Inl AttributeError
                      | Some end_condition_dict \<Rightarrow>
                         (let end_condition =
                                get_default (conditionTypeKey end_condition_dict) ''distance'';
                              end_value = get_default (endConditionValue g_step) 100
                          in bind_err (StepType_of step_type_id2) (\<lambda>t.
                             bind_err (StrokeType_of stroke_id2) (\<lambda>s.
                             bind_err (if end_condition = Some ''distance''
                                       then py_int end_value else Inr 0) (\<lambda>d.
                             bind_err (if end_condition = Some ''time''
                                          \<or> end_condition = Some ''fixed.rest''
                                       then bind_err (py_int end_value) (\<lambda>n. Inr (Some n))
                                       else Inr None) (\<lambda>dur.
                             WorkoutStep_init step_id' t s d dur
                               (get_field (zoneNumber g_step))
                               (get_field (step_description g_step))
                               Equipment_default))))))))))"

fun convert_garmin_step :: "nat \<Rightarrow> wire_step \<Rightarrow> error + (entry \<times> nat)"
  and convert_garmin_steps :: "nat \<Rightarrow> wire_step list \<Rightarrow> error + (entry list \<times> nat)" where
  "convert_garmin_step step_counter (WireStep g_step inner) =
     (let step_counter1 = Suc step_counter;
          step_id' = ''step-'' @ str_int (int step_counter1)
      in (case get_default (stepType g_step) empty_stepType of
            None \<Rightarrow> Inl AttributeError
          | Some step_type_dict' \<Rightarrow>
             (let step_type_id = get_default (stepTypeId step_type_dict') 3
              in if step_type_id = Some 6 then
                   (case inner of
                      Null \<Rightarrow> Inl TypeError
                    | Absent \<Rightarrow>
                        bind_err (RepeatGroup_init step_id'
                                    (get_default (numberOfIterations g_step) 1) [])
                          (\<lambda>g. Inr (Group g, step_counter1))
                    | Val inner_list \<Rightarrow>
                        bind_err (convert_garmin_steps step_counter1 inner_list)
                          (\<lambda>(inner_steps, step_counter2).
                             bind_err (RepeatGroup_init step_id'
                                         (get_default (numberOfIterations g_step) 1) inner_steps)
                               (\<lambda>g. Inr (Group g, step_counter2))))
                 else bind_err (regular_step step_id' step_type_id g_step)
                        (\<lambda>step. Inr (Step step, step_counter1)))))"
| "convert_garmin_steps step_counter [] = Inr ([], step_counter)"
| "convert_garmin_steps step_counter (g_step # rest') =
     bind_err (convert_garmin_step step_counter g_step) (\<lambda>(e, step_counter1).
       bind_err (convert_garmin_steps step_counter1 rest') (\<lambda>(es, step_counter2).
         Inr (e # es, step_counter2)))"




section \<open>Domain to wire (workout_to_garmin_dict)\<close>

text \<open>\<open>" + ".join(eq_parts)\<close>\<close>

fun join_plus :: "string list \<Rightarrow> string" where
  "join_plus [] = ''''"
| "join_plus [x] = x"
| "join_plus (x # y # ys) = x @ '' + '' @ join_plus (y # ys)"

definition equipment_description :: "Equipment \<Rightarrow> string option \<Rightarrow> string option" where
  "equipment_description eq desc =
     (let eq_parts = (if pull_buoy eq then [''PULL BUOY''] else [])
                   @ (if paddles eq then [''PADDLES''] else [])
                   @ (if fins eq then [''FINS''] else [])
                   @ (if kickboard eq then [''KICKBOARD''] else [])
                   @ (if snorkel eq then [''SNORKEL''] else [])
      in if eq_parts \<noteq> [] then
           (let eq_str = join_plus eq_parts
            in case desc of
                 None \<Rightarrow> Some (''['' @ eq_str @ '']'')
               | Some d \<Rightarrow> if d \<noteq> [] then Some (''['' @ eq_str @ ''] '' @ d)
                           else Some (''['' @ eq_str @ '']''))
         else desc)"

text \<open>\<open>step.duration_seconds or 30\<close>: 30 for \<open>None\<close> and for 0.\<close>

definition duration_or_30 :: "int option \<Rightarrow> int" where
  "duration_or_30 d = (if truthy_int d then the d else 30)"

definition add_step :: "SwimWorkoutBuilder \<Rightarrow> WorkoutStep \<Rightarrow> error + SwimWorkoutBuilder" where
  "add_step b step =
     (let stroke' = stroke step;
          desc = equipment_description (equipment step) (description step)
      in if step_type step = WARMUP then warmup (distance_m step) stroke' desc b
         else if step_type step = COOLDOWN then cooldown (distance_m step) stroke' desc b
         else if step_type step = REST then rest (duration_or_30 (duration_seconds step)) desc b
         else swim (distance_m step) stroke' (zone step) desc b)"

text \<open>The function handed to \<open>repeat\<close>: \<open>for s in repeat_steps: add_step(b, s)\<close>.\<close>

fun repeat_fn :: "WorkoutStep list \<Rightarrow> SwimWorkoutBuilder \<Rightarrow> error + SwimWorkoutBuilder" where
  "repeat_fn [] b = Inr b"
| "repeat_fn (s # repeat_steps) b = bind_err (add_step b s) (repeat_fn repeat_steps)"

fun add_entries :: "entry list \<Rightarrow> SwimWorkoutBuilder \<Rightarrow> error + SwimWorkoutBuilder" where
  "add_entries [] builder = Inr builder"
| "add_entries (Group g # rest') builder =
     bind_err (repeat (iterations g) (repeat_fn (group_steps g)) builder) (add_entries rest')"
| "add_entries (Step s # rest') builder =
     bind_err (add_step builder s) (add_entries rest')"

definition workout_to_garmin_dict :: "Workout \<Rightarrow> error + wire_workout" where
  "workout_to_garmin_dict workout =
     bind_err (add_entries (steps workout) (create_swim_workout (name workout) (pool_length workout)))
       (\<lambda>builder. Inr (build builder))"

section \<open>Serialisation of the builder's objects (to_dict)\<close>

text \<open>
  \<open>to_dict\<close> is a method of the \<open>garminconnect\<close> workout classes, a library outside
  the repository: it dumps the object into a dictionary, attribute by attribute, the
  step objects in a list of steps and the segments in the same way. An attribute that
  was not set, or was set to \<open>None\<close>, holds \<open>None\<close>: the dump leaves it out when
  \<open>exclude_none\<close> is set and gives its key the value \<open>null\<close> otherwise. Which of the
  two the library does is the parameter \<open>exclude_none\<close>. The dictionaries the builder
  stores in attributes (step type, end condition, target, stroke, unit, sport) are
  kept as they are. A step object without inner steps is an ExecutableStep, which has
  no attribute \<open>workoutSteps\<close>.
\<close>

definition dump_field :: "bool \<Rightarrow> 'a field \<Rightarrow> 'a field" where
  "dump_field exclude_none f =
     (case f of
        Val v \<Rightarrow> Val v
      | Null \<Rightarrow> (if exclude_none then Absent else Null)
      | Absent \<Rightarrow> (if exclude_none then Absent else Null))"

definition fields_to_dict :: "bool \<Rightarrow> step_fields \<Rightarrow> step_fields" where
  "fields_to_dict exclude_none f =
     \<lparr>stepOrder = dump_field exclude_none (stepOrder f),
      stepType = dump_field exclude_none (stepType f),
      endCondition = dump_field exclude_none (endCondition f),
      endConditionValue = dump_field exclude_none (endConditionValue f),
      preferredEndConditionUnit = dump_field exclude_none (preferredEndConditionUnit f),
      targetType = dump_field exclude_none (targetType f),
      strokeType = dump_field exclude_none (strokeType f),
      zoneNumber = dump_field exclude_none (zoneNumber f),
      step_description = dump_field exclude_none (step_description f),
      numberOfIterations = dump_field exclude_none (numberOfIterations f),
      smartRepeat = dump_field exclude_none (smartRepeat f)\<rparr>"

fun step_to_dict :: "bool \<Rightarrow> wire_step \<Rightarrow> wire_step"
  and steps_to_dict :: "bool \<Rightarrow> wire_step list \<Rightarrow> wire_step list" where
  "step_to_dict exclude_none (WireStep f (Val inner)) =
     WireStep (fields_to_dict exclude_none f) (Val (steps_to_dict exclude_none inner))"
| "step_to_dict exclude_none (WireStep f Null) =
     WireStep (fields_to_dict exclude_none f) (if exclude_none then Absent else Null)"
| "step_to_dict exclude_none (WireStep f Absent) = WireStep (fields_to_dict exclude_none f) Absent"
| "steps_to_dict exclude_none [] = []"
| "steps_to_dict exclude_none (step # rest') =
     step_to_dict exclude_none step # steps_to_dict exclude_none rest'"



section \<open>Upload flow (api/routes/garmin.py)\<close>

text \<open>
  The remote client is outside the repository: \<open>garmin_service.upload_workout\<close> answers
  with an UploadResult and \<open>garmin_service.delete_workout_from_garmin\<close> with a truth
  value, and neither raises. The flow runs against such a remote and a world made of
  the local store and the log of the remote calls made so far. Its outcome is one of
  the three HTTP errors it raises (404 not found, 400 conversion error, 400 with the
  upload's error) or the upload result it returns.
\<close>

record UploadResult =
  success :: bool
  result_workout_id :: "string option"
  error_message :: "string option"

record remote =
  upload_response :: "wire_workout \<Rightarrow> UploadResult"
  delete_response :: "string \<Rightarrow> bool"

datatype remote_call = UploadCall wire_workout | DeleteCall string

record world =
  local_store :: store
  remote_calls :: "remote_call list"

datatype response =
  NotFound | ConversionFailed error | UploadFailed "string option" | Returned UploadResult

definition truthy_str :: "string option \<Rightarrow> bool" where
  "truthy_str x = (case x of None \<Rightarrow> False | Some s \<Rightarrow> s \<noteq> [])"

definition upload_workout :: "remote \<Rightarrow> string \<Rightarrow> world \<Rightarrow> response \<times> world" where
  "upload_workout env workout_id' w =
     (case get_workout workout_id' (local_store w) of
        None \<Rightarrow> (NotFound, w)
      | Some workout \<Rightarrow>
         (let old_garmin_id = workout_id'
          in (case workout_to_garmin_dict workout of
                Inl e \<Rightarrow> (ConversionFailed e, w)
              | Inr garmin_workout \<Rightarrow>
                 (let result = upload_response env garmin_workout;
                      w1 = w\<lparr>remote_calls := remote_calls w @ [UploadCall garmin_workout]\<rparr>
                  in if \<not> success result then (UploadFailed (error_message result), w1)
                     else if old_garmin_id \<noteq> [] \<and> truthy_str (result_workout_id result)
                             \<and> Some old_garmin_id \<noteq> result_workout_id result
                     then
                       (let deleted = delete_response env old_garmin_id;
                            w2 = w1\<lparr>remote_calls := remote_calls w1 @ [DeleteCall old_garmin_id]\<rparr>;
                            replaced = replace_workout_id old_garmin_id
                                         (the (result_workout_id result)) (local_store w2)
                        in (Returned result, w2\<lparr>local_store := snd replaced\<rparr>))
                     else (Returned result, w1)))))"

section \<open>Round trip, as the converters realise it\<close>

text \<open>
  What a domain step and its image share, when the workout is converted to the
  builder's object, dumped with \<open>to_dict\<close> and converted back. A step of kind WARMUP,
  COOLDOWN or INTERVAL keeps its kind, its stroke and its distance. A REST step keeps
  its kind and its duration when one is set and is not 0; without a duration it comes
  back with the default of 30 seconds. Nothing is said of a step of another kind, of a
  REST step's stroke and distance, or of a REST step whose duration is 0. A group
  comes back as a group with the same iteration count and its children related one
  by one.
\<close>

definition step_round_trip :: "WorkoutStep \<Rightarrow> WorkoutStep \<Rightarrow> bool" where
  "step_round_trip s s' =
     ((step_type s = WARMUP \<or> step_type s = COOLDOWN \<or> step_type s = INTERVAL \<longrightarrow>
         step_type s' = step_type s \<and> stroke s' = stroke s \<and> distance_m s' = distance_m s)
      \<and> (step_type s = REST \<longrightarrow>
           step_type s' = REST
           \<and> (case duration_seconds s of
                 None \<Rightarrow> duration_seconds s' = Some 30
               | Some d \<Rightarrow> d \<noteq> 0 \<longrightarrow> duration_seconds s' = Some d)))"

fun entry_round_trip :: "entry \<Rightarrow> entry \<Rightarrow> bool" where
  "entry_round_trip (Step s) (Step s') = step_round_trip s s'"
| "entry_round_trip (Group g) (Group g') =
     (iterations g' = iterations g
      \<and> list_all2 step_round_trip (group_steps g) (group_steps g'))"
| "entry_round_trip (Step s) (Group g') = False"
| "entry_round_trip (Group g) (Step s') = False"

text \<open>
  The workouts the round trip is stated for: the field constraints the model
  constructors enforce (distance at least 0, zone in 1..5, iterations at least 1, name of
  at most 80 characters), with distances, rest durations and iteration counts below
  \<open>2^53\<close>, the range in which the conversion to a float is exact.
\<close>

definition valid_step :: "WorkoutStep \<Rightarrow> bool" where
  "valid_step s =
     (0 \<le> distance_m s \<and> distance_m s < 2 ^ 53
      \<and> (case zone s of None \<Rightarrow> True | Some z \<Rightarrow> 1 \<le> z \<and> z \<le> 5)
      \<and> (case duration_seconds s of None \<Rightarrow> True | Some d \<Rightarrow> \<bar>d\<bar> < 2 ^ 53))"

fun valid_entry :: "entry \<Rightarrow> bool" where
  "valid_entry (Step s) = valid_step s"
| "valid_entry (Group g) =
     (1 \<le> iterations g \<and> iterations g < 2 ^ 53 \<and> list_all valid_step (group_steps g))"

definition valid_workout :: "Workout \<Rightarrow> bool" where
  "valid_workout w = (length (name w) \<le> 80 \<and> list_all valid_entry (steps w))"

section \<open>Example values\<close>

definition rest_step :: WorkoutStep where
  "rest_step = \<lparr>step_id = ''step-3'', step_type = REST, stroke = FREESTYLE, distance_m = 20,
     duration_seconds = Some 20, zone = None, description = None, equipment = Equipment_default\<rparr>"

definition swim_step :: WorkoutStep where
  "swim_step = \<lparr>step_id = ''step-2'', step_type = INTERVAL, stroke = FREESTYLE, distance_m = 100,
     duration_seconds = None, zone = Some 2, description = None, equipment = Equipment_default\<rparr>"

definition group_example :: RepeatGroup where
  "group_example = \<lparr>group_id = ''step-1'', group_step_type = REPEAT, iterations = 4,
     group_steps = [swim_step, rest_step]\<rparr>"

definition workout_example :: Workout where
  "workout_example = \<lparr>workout_id = ''old-1'', name = ''Test'', pool_length = 25,
     steps = [Group group_example]\<rparr>"

definition wire_leaf :: "int \<Rightarrow> string \<Rightarrow> rat field \<Rightarrow> int \<Rightarrow> wire_step" where
  "wire_leaf tid key v sid =
     WireStep (empty_step\<lparr>stepType := Val (empty_stepType\<lparr>stepTypeId := Val tid\<rparr>),
                 endCondition := Val (empty_condition\<lparr>conditionTypeKey := Val key\<rparr>),
                 endConditionValue := v,
                 strokeType := Val (empty_stroke\<lparr>strokeTypeId := Val sid\<rparr>)\<rparr>) Absent"

definition imported_step :: "StepType \<Rightarrow> StrokeType \<Rightarrow> int \<Rightarrow> int option \<Rightarrow> WorkoutStep" where
  "imported_step t s d dur = \<lparr>step_id = ''step-1'', step_type = t, stroke = s, distance_m = d,
     duration_seconds = dur, zone = None, description = None, equipment = Equipment_default\<rparr>"

definition overflow_workout :: Workout where
  "overflow_workout = \<lparr>workout_id = ''big'', name = ''Big'', pool_length = 25,
     steps = [Step (imported_step WARMUP FREESTYLE (2 ^ 1024) None)]\<rparr>"


definition files_example :: files where
  "files_example = [Path WORKOUT_DIR [''old-1.json''] \<mapsto> workout_example]"

definition failing_remote :: remote where
  "failing_remote = \<lparr>upload_response = (\<lambda>gw. \<lparr>success = False, result_workout_id = None,
        error_message = Some ''Not authenticated''\<rparr>),
     delete_response = (\<lambda>i. False)\<rparr>"

definition accepting_remote :: remote where
  "accepting_remote = \<lparr>upload_response = (\<lambda>gw. \<lparr>success = True,
        result_workout_id = Some ''new-2'', error_message = None\<rparr>),
     delete_response = (\<lambda>i. False)\<rparr>"

definition world_example :: "Workout \<Rightarrow> world" where
  "world_example workout = \<lparr>local_store = [workout_id workout \<mapsto> workout], remote_calls = []\<rparr>"

definition scenario_workout :: "error + wire_workout" where
  "scenario_workout =
     bind_err (warmup 300 FREESTYLE None (create_swim_workout ''Test'' 25)) (\<lambda>b1.
     bind_err (repeat 4 (\<lambda>b. bind_err (swim 100 FREESTYLE (Some 2) None b) (rest 20 None)) b1)
       (\<lambda>b2.
     bind_err (cooldown 200 FREESTYLE None b2) (\<lambda>b3. Inr (build b3))))"

section \<open>Verified properties\<close>

subsection \<open>Helper lemmas\<close>

lemma validate_steps_Inr:
  "validate_steps es = Inr ss \<Longrightarrow> es = map Step ss"
proof (induction es arbitrary: ss)
  case Nil
  then show ?case by simp
next
  case (Cons e es)
  then show ?case
    by (cases e) (auto simp: bind_err_def split: sum.splits)
qed

lemma bind_err_Inr_iff: "bind_err m f = Inr y \<longleftrightarrow> (\<exists>x. m = Inr x \<and> f x = Inr y)"
  by (cases m) (auto simp: bind_err_def)





lemma WorkoutStep_init_Inr:
  "WorkoutStep_init i t s d dur z desc eq = Inr w \<Longrightarrow>
     step_id w = i \<and> step_type w = t \<and> stroke w = s \<and> distance_m w = d
     \<and> duration_seconds w = dur \<and> zone w = z \<and> description w = desc \<and> equipment w = eq
     \<and> 0 \<le> d"
  by (auto simp: WorkoutStep_init_def split: if_splits)

lemma regular_step_Inr:
  assumes "regular_step i tid g = Inr s"
  shows "\<exists>sid0 t0 ec.
      stroke_id_of g = Some sid0 \<and> tid = Some t0
    \<and> get_default (endCondition g) empty_condition = Some ec
    \<and> StepType_of (if t0 < 1 \<or> 6 < t0 then 3 else t0) = Inr (step_type s)
    \<and> StrokeType_of (if sid0 < 1 \<or> 7 < sid0 then 5 else sid0) = Inr (stroke s)
    \<and> (if get_default (conditionTypeKey ec) ''distance'' = Some ''distance''
        then py_int (get_default (endConditionValue g) 100) else Inr 0) = Inr (distance_m s)
    \<and> (if get_default (conditionTypeKey ec) ''distance'' = Some ''time''
           \<or> get_default (conditionTypeKey ec) ''distance'' = Some ''fixed.rest''
        then bind_err (py_int (get_default (endConditionValue g) 100)) (\<lambda>n. Inr (Some n))
        else Inr None) = Inr (duration_seconds s)
    \<and> zone s = get_field (zoneNumber g) \<and> description s = get_field (step_description g)
    \<and> step_id s = i \<and> equipment s = Equipment_default"
proof -
  from assms obtain sid0 where 1: "stroke_id_of g = Some sid0"
    unfolding regular_step_def by (cases "stroke_id_of g") simp_all
  from assms 1 obtain t0 where 2: "tid = Some t0"
    unfolding regular_step_def Let_def by (cases tid) simp_all
  from assms 1 2 obtain ec where 3: "get_default (endCondition g) empty_condition = Some ec"
    unfolding regular_step_def Let_def
    by (cases "get_default (endCondition g) empty_condition") simp_all
  from assms 1 2 3 show ?thesis
    unfolding regular_step_def Let_def
    by (clarsimp simp: bind_err_Inr_iff dest!: WorkoutStep_init_Inr split del: if_split)
qed

lemma convert_leaf_regular:
  assumes "convert_garmin_step c (WireStep g inner) = Inr (Step s, c')"
  shows "\<exists>st. get_default (stepType g) empty_stepType = Some st
     \<and> regular_step (''step-'' @ str_int (int (Suc c))) (get_default (stepTypeId st) 3) g = Inr s
     \<and> c' = Suc c"
proof -
  from assms obtain st where 1: "get_default (stepType g) empty_stepType = Some st"
    by (cases "get_default (stepType g) empty_stepType") (simp_all add: Let_def)
  from assms 1 have 2: "get_default (stepTypeId st) 3 \<noteq> Some 6"
    by (auto simp: Let_def bind_err_Inr_iff split: field.splits)
  from assms 1 2 show ?thesis
    by (auto simp: Let_def bind_err_Inr_iff)
qed

lemma regular_step_end_condition:
  assumes "regular_step i tid g = Inr s"
  shows "\<exists>ec. get_default (endCondition g) empty_condition = Some ec
     \<and> (get_default (conditionTypeKey ec) ''distance'' = Some ''distance'' \<longrightarrow>
           (\<exists>v. get_default (endConditionValue g) 100 = Some v \<and> distance_m s = trunc v)
           \<and> duration_seconds s = None)
     \<and> (get_default (conditionTypeKey ec) ''distance'' = Some ''time''
          \<or> get_default (conditionTypeKey ec) ''distance'' = Some ''fixed.rest'' \<longrightarrow>
           (\<exists>v. get_default (endConditionValue g) 100 = Some v
                \<and> duration_seconds s = Some (trunc v))
           \<and> distance_m s = 0)
     \<and> (get_default (conditionTypeKey ec) ''distance'' \<noteq> Some ''distance''
          \<and> get_default (conditionTypeKey ec) ''distance'' \<noteq> Some ''time''
          \<and> get_default (conditionTypeKey ec) ''distance'' \<noteq> Some ''fixed.rest'' \<longrightarrow>
           distance_m s = 0 \<and> duration_seconds s = None)"
proof -
  from regular_step_Inr [OF assms] obtain ec where
    ec: "get_default (endCondition g) empty_condition = Some ec"
    and d0: "(if get_default (conditionTypeKey ec) ''distance'' = Some ''distance''
        then py_int (get_default (endConditionValue g) 100) else Inr 0) = Inr (distance_m s)"
    and u0: "(if get_default (conditionTypeKey ec) ''distance'' = Some ''time''
           \<or> get_default (conditionTypeKey ec) ''distance'' = Some ''fixed.rest''
        then bind_err (py_int (get_default (endConditionValue g) 100)) (\<lambda>n. Inr (Some n))
        else Inr None) = Inr (duration_seconds s)"
    by blast
  define K where "K = get_default (conditionTypeKey ec) ''distance''"
  define V where "V = get_default (endConditionValue g) 100"
  have d: "(if K = Some ''distance'' then py_int V else Inr 0) = Inr (distance_m s)"
    using d0 by (simp only: K_def V_def)
  have u: "(if K = Some ''time'' \<or> K = Some ''fixed.rest''
        then bind_err (py_int V) (\<lambda>n. Inr (Some n)) else Inr None) = Inr (duration_seconds s)"
    using u0 by (simp only: K_def V_def)
  have ne: "Some ''distance'' \<noteq> Some ''time''" "Some ''distance'' \<noteq> Some ''fixed.rest''"
    by simp_all
  have A: "K = Some ''distance'' \<longrightarrow>
           (\<exists>v. V = Some v \<and> distance_m s = trunc v) \<and> duration_seconds s = None"
  proof
    assume k: "K = Some ''distance''"
    from d k have "py_int V = Inr (distance_m s)" by simp
    moreover from u k ne have "Inr None = (Inr (duration_seconds s) :: error + int option)"
      by simp
    ultimately show "(\<exists>v. V = Some v \<and> distance_m s = trunc v) \<and> duration_seconds s = None"
      by (cases V) (auto simp: py_int_def)
  qed
  have B: "K = Some ''time'' \<or> K = Some ''fixed.rest'' \<longrightarrow>
           (\<exists>v. V = Some v \<and> duration_seconds s = Some (trunc v)) \<and> distance_m s = 0"
  proof
    assume k: "K = Some ''time'' \<or> K = Some ''fixed.rest''"
    with ne have k': "K \<noteq> Some ''distance''" by auto
    from d k' have "distance_m s = 0" by simp
    moreover from u k
    have "bind_err (py_int V) (\<lambda>n. Inr (Some n)) = Inr (duration_seconds s)"
      by (simp only: if_True)
    ultimately show "(\<exists>v. V = Some v \<and> duration_seconds s = Some (trunc v)) \<and> distance_m s = 0"
      by (cases V) (auto simp: py_int_def bind_err_def)
  qed
  have C: "K \<noteq> Some ''distance'' \<and> K \<noteq> Some ''time'' \<and> K \<noteq> Some ''fixed.rest'' \<longrightarrow>
           distance_m s = 0 \<and> duration_seconds s = None"
    using d u by auto
  from ec A B C show ?thesis
    unfolding K_def V_def by blast
qed

lemma trunc_of_int: "trunc (of_int n) = n"
  by (simp add: trunc_def)

lemma trunc_numeral: "trunc (numeral n) = numeral n"
  using trunc_of_int [of "numeral n"] by simp

lemma trunc_yards: "trunc (4572 / 25) = 182"
proof -
  have "\<lfloor>4572 / 25 :: rat\<rfloor> = 182"
    by (rule floor_unique) simp_all
  then show ?thesis by (simp add: trunc_def)
qed

lemma round_yards: "round (4572 / 25 :: rat) = 183"
proof -
  have "\<lfloor>4572 / 25 + 1 / 2 :: rat\<rfloor> = 183"
    by (rule floor_unique) simp_all
  then show ?thesis by (simp only: round_def)
qed

lemma convert_wire_leaf:
  "tid \<noteq> 6 \<Longrightarrow> convert_garmin_step 0 (wire_leaf tid key v sid) =
     bind_err (regular_step ''step-1'' (Some tid)
        (empty_step\<lparr>stepType := Val (empty_stepType\<lparr>stepTypeId := Val tid\<rparr>),
                 endCondition := Val (empty_condition\<lparr>conditionTypeKey := Val key\<rparr>),
                 endConditionValue := v,
                 strokeType := Val (empty_stroke\<lparr>strokeTypeId := Val sid\<rparr>)\<rparr>))
       (\<lambda>step. Inr (Step step, 1))"
  by (simp add: wire_leaf_def empty_step_def get_default_def str_int_def str_nat.simps)

lemmas leaf_eval = trunc_yards trunc_numeral convert_wire_leaf regular_step_def stroke_id_of_def empty_step_def
  empty_stroke_def empty_condition_def get_default_def get_field_def bind_err_def
  StepType_of_def StrokeType_of_def py_int_def WorkoutStep_init_def imported_step_def

lemma bit_length_le: "n < 2 ^ k \<Longrightarrow> bit_length n \<le> k"
proof (induction n arbitrary: k rule: bit_length.induct)
  case (1 n)
  show ?case
  proof (cases "n = 0")
    case True
    then show ?thesis by (simp add: bit_length.simps [of 0])
  next
    case False
    with "1.prems" obtain j where k: "k = Suc j"
      by (cases k) auto
    with "1.prems" have "n div 2 < 2 ^ j" by auto
    with "1.IH" [OF False] have "bit_length (n div 2) \<le> j" .
    with False k show ?thesis by (simp add: bit_length.simps [of n])
  qed
qed

lemma bit_length_gt: "k < bit_length n \<Longrightarrow> 2 ^ k \<le> n"
  using bit_length_le [of n k] by (cases "n < 2 ^ k") auto

lemma round_to_double_small: "n < 2 ^ 53 \<Longrightarrow> round_to_double n = n"
  using bit_length_le [of n 53] by (simp add: round_to_double_def)

lemma round_to_double_le: "round_to_double p \<le> 2 * p"
proof (cases "bit_length p \<le> 53")
  case True
  then show ?thesis by (simp add: round_to_double_def)
next
  case False
  define k where "k = bit_length p - 53"
  define q where "q = p div 2 ^ k"
  from False have "k < bit_length p" by (simp add: k_def)
  then have kp: "2 ^ k \<le> p" by (rule bit_length_gt)
  have qp: "q * 2 ^ k \<le> p" by (simp add: q_def)
  have "round_to_double p \<le> (q + 1) * 2 ^ k"
    using False by (simp add: round_to_double_def Let_def k_def q_def)
  also have "\<dots> = q * 2 ^ k + 2 ^ k" by simp
  also have "\<dots> \<le> 2 * p" using kp qp by linarith
  finally show ?thesis .
qed

lemma round_to_double_ge_power: "2 ^ j \<le> p \<Longrightarrow> 2 ^ j \<le> round_to_double p"
proof (cases "bit_length p \<le> 53")
  case True
  assume "2 ^ j \<le> p"
  with True show ?thesis by (simp add: round_to_double_def)
next
  case False
  assume jp: "2 ^ j \<le> p"
  define k where "k = bit_length p - 53"
  define q where "q = p div 2 ^ k"
  from False have "k < bit_length p" by (simp add: k_def)
  then have kp: "2 ^ k \<le> p" by (rule bit_length_gt)
  have r: "q * 2 ^ k \<le> round_to_double p"
    using False by (simp add: round_to_double_def Let_def k_def q_def)
  have "(2::nat) ^ j \<le> q * 2 ^ k"
  proof (cases "k \<le> j")
    case True
    then have "(2::nat) ^ j = 2 ^ (j - k) * 2 ^ k"
      by (simp add: power_add [symmetric])
    moreover from this jp have "2 ^ (j - k) \<le> q"
      by (simp add: q_def less_eq_div_iff_mult_less_eq)
    ultimately show ?thesis by simp
  next
    case False
    then have "(2::nat) ^ j \<le> 2 ^ k" by (simp add: power_increasing)
    moreover from kp have "1 \<le> q" by (simp add: q_def less_eq_div_iff_mult_less_eq)
    then have "(2::nat) ^ k \<le> q * 2 ^ k" by simp
    ultimately show ?thesis by linarith
  qed
  with r show ?thesis by linarith
qed

lemma float_of_int_exact: "\<bar>n\<bar> < 2 ^ 53 \<Longrightarrow> float_of_int n = Inr n"
proof -
  assume a: "\<bar>n\<bar> < 2 ^ 53"
  then have "nat \<bar>n\<bar> < 2 ^ 53" by (simp add: nat_less_iff)
  then have r: "round_to_double (nat \<bar>n\<bar>) = nat \<bar>n\<bar>" by (rule round_to_double_small)
  have "nat \<bar>n\<bar> < 2 ^ 1024"
    using \<open>nat \<bar>n\<bar> < 2 ^ 53\<close> power_strict_increasing [of 53 1024 "2::nat"] by simp
  with r show ?thesis
    by (simp add: float_of_int_def Let_def mult_sgn_abs)
qed

lemma float_of_int_overflow: "2 ^ 1024 \<le> n \<Longrightarrow> float_of_int n = Inl OverflowError"
proof -
  assume a: "2 ^ 1024 \<le> n"
  then have "2 ^ 1024 \<le> nat \<bar>n\<bar>" by (simp add: le_nat_iff)
  then have "2 ^ 1024 \<le> round_to_double (nat \<bar>n\<bar>)" by (rule round_to_double_ge_power)
  then show ?thesis by (simp add: float_of_int_def Let_def)
qed

text \<open>Beyond \<open>2^53\<close> the conversion to a float rounds: \<open>float(2^53 + 1)\<close> is
  \<open>2^53\<close>.\<close>

lemma float_of_int_rounds: "float_of_int (2 ^ 53 + 1) = Inr (2 ^ 53)"
proof -
  have b: "bit_length 9007199254740993 = 54"
    by (simp add: bit_length.simps)
  show ?thesis
    by (simp add: float_of_int_def round_to_double_def Let_def b)
qed

lemma estimate_swim_time_ok:
  assumes "\<bar>d\<bar> < 2 ^ 53"
  shows "\<exists>t. estimate_swim_time d = Inr t"
proof -
  have f: "float_of_int d = Inr d" using assms by (rule float_of_int_exact)
  have "nat \<bar>d\<bar> < 2 ^ 53" using assms by (simp add: nat_less_iff)
  moreover have "float_1_2_mantissa < 2 ^ 53" by (simp add: float_1_2_mantissa_def)
  ultimately have "nat \<bar>d\<bar> * float_1_2_mantissa < 2 ^ 53 * 2 ^ 53"
    by (rule mult_strict_mono') simp_all
  also have "(2::nat) ^ 53 * 2 ^ 53 = 2 ^ 106" by (simp add: power_add [symmetric])
  finally have "2 * (nat \<bar>d\<bar> * float_1_2_mantissa) < 2 * 2 ^ 106" by linarith
  then have "2 * (nat \<bar>d\<bar> * float_1_2_mantissa) < 2 ^ 107" by simp
  with round_to_double_le [of "nat \<bar>d\<bar> * float_1_2_mantissa"]
  have "round_to_double (nat \<bar>d\<bar> * float_1_2_mantissa) < 2 ^ 107" by linarith
  also have "(2::nat) ^ 107 < 2 ^ 1076" by (rule power_strict_increasing) simp_all
  finally have "\<not> 2 ^ 1076 \<le> round_to_double (nat \<bar>d\<bar> * float_1_2_mantissa)" by simp
  with f show ?thesis
    by (simp add: estimate_swim_time_def bind_err_def Let_def)
qed

lemma estimate_swim_time_overflow:
  "2 ^ 1024 \<le> d \<Longrightarrow> estimate_swim_time d = Inl OverflowError"
  by (simp add: estimate_swim_time_def bind_err_def float_of_int_overflow)

lemma estimate_examples:
  "estimate_swim_time 300 = Inr 360" "estimate_swim_time 100 = Inr 120"
  "estimate_swim_time 200 = Inr 240"
  by (simp_all add: estimate_swim_time_def float_of_int_def round_to_double_def bind_err_def
      float_1_2_mantissa_def Let_def bit_length.simps)

lemma StrokeType_of_value_id: "StrokeType_of (StrokeType_value s) = Inr s"
  by (cases s) (simp_all add: StrokeType_of_def)

lemma StrokeType_value_range: "1 \<le> StrokeType_value s \<and> StrokeType_value s \<le> 7"
  by (cases s) simp_all

lemma stroke_type_dict_nonempty: "stroke_type_dict s \<noteq> empty_stroke"
  by (simp add: stroke_type_dict_def empty_stroke_def)

lemma regular_stroke_step:
  assumes "strokeType g = Val (stroke_type_dict st)"
    and "endCondition g = Val distance_condition"
    and "endConditionValue g = Val (of_int d)"
    and "0 \<le> d"
    and "tid = 1 \<or> tid = 2 \<or> tid = 3"
    and "case get_field (zoneNumber g) of None \<Rightarrow> True | Some z \<Rightarrow> 1 \<le> z \<and> z \<le> 5"
  shows "regular_step i (Some tid) g =
     Inr \<lparr>step_id = i,
          step_type = (if tid = 1 then WARMUP else if tid = 2 then COOLDOWN else INTERVAL),
          stroke = st, distance_m = d, duration_seconds = None,
          zone = get_field (zoneNumber g), description = get_field (step_description g),
          equipment = Equipment_default\<rparr>"
proof -
  have s: "stroke_id_of g = Some (StrokeType_value st)"
    using assms(1) stroke_type_dict_nonempty [of st]
    by (simp add: stroke_id_of_def get_default_def) (simp add: stroke_type_dict_def)
  have n: "(if StrokeType_value st < 1 \<or> 7 < StrokeType_value st then 5
            else StrokeType_value st) = StrokeType_value st"
    using StrokeType_value_range [of st] by auto
  have t: "StepType_of (if tid < 1 \<or> 6 < tid then 3 else tid)
      = Inr (if tid = 1 then WARMUP else if tid = 2 then COOLDOWN else INTERVAL)"
    using assms(5) by (auto simp: StepType_of_def)
  have k: "get_default (conditionTypeKey distance_condition) ''distance'' = Some ''distance''"
    by (simp add: distance_condition_def get_default_def)
  have z: "\<not> (case get_field (zoneNumber g) of None \<Rightarrow> False | Some n \<Rightarrow> n < 1 \<or> 5 < n)"
    using assms(6) by (auto split: option.splits)
  show ?thesis
    unfolding regular_step_def s
    using assms(2,3,4) z
    by (simp add: Let_def n t k StrokeType_of_value_id get_default_def [of "Val x" for x]
        py_int_def trunc_of_int bind_err_def WorkoutStep_init_def)
qed

lemma regular_rest_step:
  assumes "strokeType g = Absent \<or> strokeType g = Null"
    and "endCondition g = Val rest_condition"
    and "endConditionValue g = Val (of_int d)"
    and "get_field (zoneNumber g) = None"
  shows "regular_step i (Some 5) g =
     Inr \<lparr>step_id = i, step_type = REST, stroke = FREESTYLE, distance_m = 0,
          duration_seconds = Some d, zone = None,
          description = get_field (step_description g), equipment = Equipment_default\<rparr>"
proof -
  have s: "stroke_id_of g = Some 5"
    using assms(1) by (auto simp: stroke_id_of_def)
  have k: "get_default (conditionTypeKey rest_condition) ''distance'' = Some ''fixed.rest''"
    by (simp add: rest_condition_def get_default_def)
  show ?thesis
    unfolding regular_step_def s
    using assms(2,3,4)
    by (simp add: Let_def k StrokeType_of_def StepType_of_def get_default_def [of "Val x" for x]
        py_int_def trunc_of_int bind_err_def WorkoutStep_init_def)
qed

lemma StepType_value_kind:
  "kind = WARMUP \<or> kind = COOLDOWN \<or> kind = INTERVAL \<Longrightarrow>
     StepType_value kind \<noteq> 6
     \<and> (StepType_value kind = 1 \<or> StepType_value kind = 2 \<or> StepType_value kind = 3)
     \<and> (if StepType_value kind = 1 then WARMUP
          else if StepType_value kind = 2 then COOLDOWN else INTERVAL) = kind"
  by auto

lemma distance_step_round_trip:
  assumes "0 \<le> d" and "d < 2 ^ 53"
    and "kind = WARMUP \<or> kind = COOLDOWN \<or> kind = INTERVAL"
    and "z = Absent \<or> (\<exists>n. z = Val n \<and> 1 \<le> n \<and> n \<le> 5)"
  shows "\<exists>b' ws. distance_step kind tg z d st desc b = Inr b'
     \<and> builder_steps b' = builder_steps b @ [ws]
     \<and> builder_name b' = builder_name b \<and> builder_pool_length b' = builder_pool_length b
     \<and> (\<forall>c. \<exists>s'. convert_garmin_step c (step_to_dict exclude_none ws) = Inr (Step s', Suc c)
            \<and> step_type s' = kind \<and> stroke s' = st \<and> distance_m s' = d
            \<and> duration_seconds s' = None)"
proof -
  from assms(1,2) have a: "\<bar>d\<bar> < 2 ^ 53" by simp
  from estimate_swim_time_ok [OF a] obtain t where t: "estimate_swim_time d = Inr t" ..
  have f: "float_of_int d = Inr d" using a by (rule float_of_int_exact)
  define g where "g = empty_step\<lparr>stepOrder := Val (step_order b + 1),
                     stepType := Val (step_type_dict kind),
                     endCondition := Val distance_condition,
                     endConditionValue := Val (of_int d),
                     preferredEndConditionUnit := Val distance_unit,
                     targetType := Val tg,
                     strokeType := Val (stroke_type_dict st),
                     step_description := of_option desc,
                     zoneNumber := z\<rparr>"
  define h where "h = fields_to_dict exclude_none g"
  have b: "distance_step kind tg z d st desc b =
      Inr (b\<lparr>estimated_duration := estimated_duration b + t, step_order := step_order b + 1,
              builder_steps := builder_steps b @ [WireStep g Absent]\<rparr>)"
    by (simp add: distance_step_def t f bind_err_def Let_def g_def)
  have g1: "strokeType h = Val (stroke_type_dict st)"
    and g2: "endCondition h = Val distance_condition"
    and g3: "endConditionValue h = Val (of_int d)"
    and g4: "stepType h = Val (step_type_dict kind)"
    by (simp_all add: h_def g_def fields_to_dict_def dump_field_def)
  have z: "case get_field (zoneNumber h) of None \<Rightarrow> True | Some z \<Rightarrow> 1 \<le> z \<and> z \<le> 5"
    using assms(4) by (auto simp: h_def g_def fields_to_dict_def dump_field_def get_field_def)
  note k = StepType_value_kind [OF assms(3)]
  have r: "regular_step i (Some (StepType_value kind)) h =
     Inr \<lparr>step_id = i, step_type = kind,
          stroke = st, distance_m = d, duration_seconds = None,
          zone = get_field (zoneNumber h), description = get_field (step_description h),
          equipment = Equipment_default\<rparr>" for i
    using regular_stroke_step [OF g1 g2 g3 assms(1) _ z, of "StepType_value kind" i] k
    by simp
  define S where "S c = \<lparr>step_id = ''step-'' @ str_int (int (Suc c)), step_type = kind,
          stroke = st, distance_m = d, duration_seconds = None,
          zone = get_field (zoneNumber h), description = get_field (step_description h),
          equipment = Equipment_default\<rparr>" for c
  have c: "convert_garmin_step c (step_to_dict exclude_none (WireStep g Absent)) = Inr (Step (S c), Suc c)"
    for c
    using k
    by (simp add: h_def [symmetric] g4 get_default_def step_type_dict_def Let_def r bind_err_def
        S_def)
  have s: "step_type (S c) = kind \<and> stroke (S c) = st \<and> distance_m (S c) = d
      \<and> duration_seconds (S c) = None" for c
    by (simp add: S_def)
  define b' where "b' = b\<lparr>estimated_duration := estimated_duration b + t,
      step_order := step_order b + 1, builder_steps := builder_steps b @ [WireStep g Absent]\<rparr>"
  have p: "builder_steps b' = builder_steps b @ [WireStep g Absent]"
    "builder_name b' = builder_name b" "builder_pool_length b' = builder_pool_length b"
    by (simp_all add: b'_def)
  from b have "distance_step kind tg z d st desc b = Inr b'" by (simp only: b'_def)
  with p c s show ?thesis by blast
qed

lemma rest_round_trip:
  assumes "\<bar>secs\<bar> < 2 ^ 53"
  shows "\<exists>b' ws. rest secs desc b = Inr b'
     \<and> builder_steps b' = builder_steps b @ [ws]
     \<and> builder_name b' = builder_name b \<and> builder_pool_length b' = builder_pool_length b
     \<and> (\<forall>c. \<exists>s'. convert_garmin_step c (step_to_dict exclude_none ws) = Inr (Step s', Suc c)
            \<and> step_type s' = REST \<and> stroke s' = FREESTYLE \<and> distance_m s' = 0
            \<and> duration_seconds s' = Some secs)"
proof -
  have f: "float_of_int secs = Inr secs" using assms by (rule float_of_int_exact)
  define g where "g = empty_step\<lparr>stepOrder := Val (step_order b + 1),
                    stepType := Val (step_type_dict REST),
                    endCondition := Val rest_condition,
                    endConditionValue := Val (of_int secs),
                    targetType := Val no_target,
                    step_description := of_option desc\<rparr>"
  define h where "h = fields_to_dict exclude_none g"
  have b: "rest secs desc b =
      Inr (b\<lparr>estimated_duration := estimated_duration b + secs, step_order := step_order b + 1,
              builder_steps := builder_steps b @ [WireStep g Absent]\<rparr>)"
    by (simp add: rest_def f bind_err_def Let_def g_def)
  have g1: "strokeType h = Absent \<or> strokeType h = Null"
    and g2: "endCondition h = Val rest_condition"
    and g3: "endConditionValue h = Val (of_int secs)"
    and g4: "stepType h = Val (step_type_dict REST)"
    and g5: "get_field (zoneNumber h) = None"
    by (simp_all add: h_def g_def empty_step_def fields_to_dict_def dump_field_def get_field_def)
  note r = regular_rest_step [OF g1 g2 g3 g5]
  define S where "S c = \<lparr>step_id = ''step-'' @ str_int (int (Suc c)), step_type = REST,
          stroke = FREESTYLE, distance_m = 0, duration_seconds = Some secs, zone = None,
          description = get_field (step_description h), equipment = Equipment_default\<rparr>" for c
  have c: "convert_garmin_step c (step_to_dict exclude_none (WireStep g Absent)) = Inr (Step (S c), Suc c)"
    for c
    by (simp add: h_def [symmetric] g4 get_default_def step_type_dict_def Let_def r bind_err_def
        S_def)
  have s: "step_type (S c) = REST \<and> stroke (S c) = FREESTYLE \<and> distance_m (S c) = 0
      \<and> duration_seconds (S c) = Some secs" for c
    by (simp add: S_def)
  define b' where "b' = b\<lparr>estimated_duration := estimated_duration b + secs,
      step_order := step_order b + 1, builder_steps := builder_steps b @ [WireStep g Absent]\<rparr>"
  have p: "builder_steps b' = builder_steps b @ [WireStep g Absent]"
    "builder_name b' = builder_name b" "builder_pool_length b' = builder_pool_length b"
    by (simp_all add: b'_def)
  from b have "rest secs desc b = Inr b'" by (simp only: b'_def)
  with p c s show ?thesis by blast
qed

lemma add_step_valid:
  assumes "valid_step s"
  shows "\<exists>b' ws. add_step b s = Inr b'
     \<and> builder_steps b' = builder_steps b @ [ws]
     \<and> builder_name b' = builder_name b \<and> builder_pool_length b' = builder_pool_length b
     \<and> (\<forall>c. \<exists>s'. convert_garmin_step c (step_to_dict exclude_none ws) = Inr (Step s', Suc c)
            \<and> step_round_trip s s')"
proof -
  from assms have d: "0 \<le> distance_m s" "distance_m s < 2 ^ 53"
    by (simp_all add: valid_step_def)
  define desc where "desc = equipment_description (equipment s) (description s)"
  consider (w) "step_type s = WARMUP" | (c) "step_type s = COOLDOWN" | (r) "step_type s = REST"
    | (i) "step_type s \<noteq> WARMUP" "step_type s \<noteq> COOLDOWN" "step_type s \<noteq> REST"
    by blast
  then show ?thesis
  proof cases
    case w
    from distance_step_round_trip [OF d, of WARMUP Absent no_target "stroke s" desc b exclude_none]
    obtain b' ws where 1: "distance_step WARMUP no_target Absent (distance_m s) (stroke s) desc b
        = Inr b'" "builder_steps b' = builder_steps b @ [ws]"
        "builder_name b' = builder_name b" "builder_pool_length b' = builder_pool_length b"
      and 2: "\<forall>c. \<exists>s'. convert_garmin_step c (step_to_dict exclude_none ws) = Inr (Step s', Suc c)
            \<and> step_type s' = WARMUP \<and> stroke s' = stroke s \<and> distance_m s' = distance_m s
            \<and> duration_seconds s' = None"
      by auto
    have "add_step b s = Inr b'"
      using 1(1) w by (simp add: add_step_def warmup_def Let_def desc_def)
    moreover have "\<exists>s'. convert_garmin_step k (step_to_dict exclude_none ws) = Inr (Step s', Suc k)
        \<and> step_round_trip s s'" for k
      using 2 [rule_format, of k] w by (auto simp: step_round_trip_def)
    ultimately show ?thesis using 1(2,3,4) by blast
  next
    case c
    from distance_step_round_trip [OF d, of COOLDOWN Absent no_target "stroke s" desc b exclude_none]
    obtain b' ws where 1: "distance_step COOLDOWN no_target Absent (distance_m s) (stroke s) desc b
        = Inr b'" "builder_steps b' = builder_steps b @ [ws]"
        "builder_name b' = builder_name b" "builder_pool_length b' = builder_pool_length b"
      and 2: "\<forall>c. \<exists>s'. convert_garmin_step c (step_to_dict exclude_none ws) = Inr (Step s', Suc c)
            \<and> step_type s' = COOLDOWN \<and> stroke s' = stroke s \<and> distance_m s' = distance_m s
            \<and> duration_seconds s' = None"
      by auto
    have "add_step b s = Inr b'"
      using 1(1) c by (simp add: add_step_def cooldown_def Let_def desc_def)
    moreover have "\<exists>s'. convert_garmin_step k (step_to_dict exclude_none ws) = Inr (Step s', Suc k)
        \<and> step_round_trip s s'" for k
      using 2 [rule_format, of k] c by (auto simp: step_round_trip_def)
    ultimately show ?thesis using 1(2,3,4) by blast
  next
    case r
    have "\<bar>duration_or_30 (duration_seconds s)\<bar> < 2 ^ 53"
      using assms by (auto simp: valid_step_def duration_or_30_def truthy_int_def
          split: option.splits)
    from rest_round_trip [OF this, of desc b exclude_none]
    obtain b' ws where 1: "rest (duration_or_30 (duration_seconds s)) desc b = Inr b'"
        "builder_steps b' = builder_steps b @ [ws]"
        "builder_name b' = builder_name b" "builder_pool_length b' = builder_pool_length b"
      and 2: "\<forall>c. \<exists>s'. convert_garmin_step c (step_to_dict exclude_none ws) = Inr (Step s', Suc c)
            \<and> step_type s' = REST \<and> stroke s' = FREESTYLE \<and> distance_m s' = 0
            \<and> duration_seconds s' = Some (duration_or_30 (duration_seconds s))"
      by auto
    have "add_step b s = Inr b'"
      using 1(1) r by (simp add: add_step_def Let_def desc_def)
    moreover have "\<exists>s'. convert_garmin_step k (step_to_dict exclude_none ws) = Inr (Step s', Suc k)
        \<and> step_round_trip s s'" for k
      using 2 [rule_format, of k] r
      by (auto simp: step_round_trip_def duration_or_30_def truthy_int_def split: option.splits)
    ultimately show ?thesis using 1(2,3,4) by blast
  next
    case i
    define zn where "zn = (if truthy_int (zone s) then Val (the (zone s)) else Absent)"
    define tg where "tg = (if truthy_int (zone s) then hr_zone_target (the (zone s))
        else no_target)"
    have z: "zn = Absent \<or> (\<exists>n. zn = Val n \<and> 1 \<le> n \<and> n \<le> 5)"
      using assms by (auto simp: zn_def valid_step_def truthy_int_def split: option.splits)
    from distance_step_round_trip [OF d _ z, of INTERVAL tg "stroke s" desc b exclude_none]
    obtain b' ws where 1: "distance_step INTERVAL tg zn (distance_m s) (stroke s) desc b
        = Inr b'" "builder_steps b' = builder_steps b @ [ws]"
        "builder_name b' = builder_name b" "builder_pool_length b' = builder_pool_length b"
      and 2: "\<forall>c. \<exists>s'. convert_garmin_step c (step_to_dict exclude_none ws) = Inr (Step s', Suc c)
            \<and> step_type s' = INTERVAL \<and> stroke s' = stroke s \<and> distance_m s' = distance_m s
            \<and> duration_seconds s' = None"
      by auto
    have "add_step b s = Inr b'"
      using 1(1) i by (simp add: add_step_def swim_def Let_def desc_def zn_def tg_def)
    moreover have "\<exists>s'. convert_garmin_step k (step_to_dict exclude_none ws) = Inr (Step s', Suc k)
        \<and> step_round_trip s s'" for k
      using 2 [rule_format, of k] i by (auto simp: step_round_trip_def)
    ultimately show ?thesis using 1(2,3,4) by blast
  qed
qed

lemma repeat_fn_valid:
  assumes "list_all valid_step ss"
  shows "\<exists>b' wss. repeat_fn ss b = Inr b' \<and> builder_steps b' = builder_steps b @ wss
     \<and> list_all2 (\<lambda>s ws. \<forall>c. \<exists>s'. convert_garmin_step c (step_to_dict exclude_none ws) = Inr (Step s', Suc c)
                              \<and> step_round_trip s s') ss wss"
  using assms
proof (induction ss arbitrary: b)
  case Nil
  then show ?case by simp
next
  case (Cons s ss)
  then have v: "valid_step s" and vs: "list_all valid_step ss" by simp_all
  from add_step_valid [OF v, of b] obtain b1 ws where
    1: "add_step b s = Inr b1" "builder_steps b1 = builder_steps b @ [ws]"
    and 2: "\<forall>c. \<exists>s'. convert_garmin_step c (step_to_dict exclude_none ws) = Inr (Step s', Suc c) \<and> step_round_trip s s'"
    by blast
  from Cons.IH [OF vs, of b1] obtain b' wss where
    3: "repeat_fn ss b1 = Inr b'" "builder_steps b' = builder_steps b1 @ wss"
    and 4: "list_all2 (\<lambda>s ws. \<forall>c. \<exists>s'. convert_garmin_step c (step_to_dict exclude_none ws) = Inr (Step s', Suc c)
                              \<and> step_round_trip s s') ss wss"
    by blast
  have "repeat_fn (s # ss) b = Inr b'" using 1 3 by (simp add: bind_err_def)
  moreover have "builder_steps b' = builder_steps b @ (ws # wss)" using 1 3 by simp
  ultimately show ?case using 2 4 by (intro exI [of _ b'] exI [of _ "ws # wss"]) simp
qed

lemma convert_leaves:
  assumes "list_all2 (\<lambda>s ws. \<forall>c. \<exists>s'. convert_garmin_step c (step_to_dict exclude_none ws) = Inr (Step s', Suc c)
                              \<and> step_round_trip s s') ss wss"
  shows "\<exists>ss'. convert_garmin_steps c (steps_to_dict exclude_none wss) = Inr (map Step ss', c + length wss)
     \<and> list_all2 step_round_trip ss ss'"
  using assms
proof (induction ss wss arbitrary: c rule: list_all2_induct)
  case Nil
  then show ?case by simp
next
  case (Cons s ss ws wss)
  from Cons.hyps(1) obtain s' where
    1: "convert_garmin_step c (step_to_dict exclude_none ws) = Inr (Step s', Suc c)" "step_round_trip s s'"
    by blast
  from Cons.IH [of "Suc c"] obtain ss' where
    2: "convert_garmin_steps (Suc c) (steps_to_dict exclude_none wss) = Inr (map Step ss', Suc c + length wss)"
      "list_all2 step_round_trip ss ss'"
    by blast
  have "convert_garmin_steps c (steps_to_dict exclude_none (ws # wss))
      = Inr (map Step (s' # ss'), c + length (ws # wss))"
    using 1 2 by (simp add: bind_err_def)
  with 1 2 show ?case by (intro exI [of _ "s' # ss'"]) simp
qed

lemma convert_ignores_stepOrder:
  "convert_garmin_step c (WireStep (f\<lparr>stepOrder := x\<rparr>) inner)
     = convert_garmin_step c (WireStep f inner)"
proof -
  have r: "regular_step i t (f\<lparr>stepOrder := x\<rparr>) = regular_step i t f" for i t
    by (simp add: regular_step_def stroke_id_of_def Let_def
        cong: option.case_cong field.case_cong if_cong)
  show ?thesis
    by (simp add: Let_def r cong: option.case_cong field.case_cong if_cong)
qed

lemma convert_renumber: "convert_garmin_steps c (renumber i wss) = convert_garmin_steps c wss"
proof (induction wss arbitrary: c i)
  case Nil
  then show ?case by simp
next
  case (Cons ws wss)
  obtain f inner where ws: "ws = WireStep f inner" by (cases ws)
  have "convert_garmin_steps c (renumber i (ws # wss)) =
      bind_err (convert_garmin_step c (WireStep (f\<lparr>stepOrder := Val i\<rparr>) inner))
        (\<lambda>(e, c1). bind_err (convert_garmin_steps c1 (renumber (i + 1) wss))
           (\<lambda>(es, c2). Inr (e # es, c2)))"
    by (simp add: ws del: convert_garmin_step.simps)
  also have "\<dots> = bind_err (convert_garmin_step c (WireStep f inner))
        (\<lambda>(e, c1). bind_err (convert_garmin_steps c1 wss)
           (\<lambda>(es, c2). Inr (e # es, c2)))"
    by (simp only: convert_ignores_stepOrder Cons.IH)
  also have "\<dots> = convert_garmin_steps c (ws # wss)"
    by (simp add: ws del: convert_garmin_step.simps)
  finally show ?case .
qed

lemma validate_steps_map_Step: "validate_steps (map Step ss) = Inr ss"
  by (induction ss) (simp_all add: bind_err_def)

lemma steps_to_dict_renumber:
  "steps_to_dict exclude_none (renumber i wss) = renumber i (steps_to_dict exclude_none wss)"
proof (induction wss arbitrary: i)
  case Nil
  then show ?case by simp
next
  case (Cons ws wss)
  obtain f inner where ws: "ws = WireStep f inner" by (cases ws)
  have "fields_to_dict exclude_none (f\<lparr>stepOrder := Val i\<rparr>) = (fields_to_dict exclude_none f)\<lparr>stepOrder := Val i\<rparr>"
    by (simp add: fields_to_dict_def dump_field_def)
  with Cons show ?case
    by (cases inner) (simp_all add: ws del: convert_garmin_step.simps)
qed

lemma repeat_valid:
  assumes "valid_entry (Group g)"
  shows "\<exists>b' ws. repeat (iterations g) (repeat_fn (group_steps g)) b = Inr b'
     \<and> builder_steps b' = builder_steps b @ [ws]
     \<and> builder_name b' = builder_name b \<and> builder_pool_length b' = builder_pool_length b
     \<and> (\<forall>c. \<exists>e' c'. convert_garmin_step c (step_to_dict exclude_none ws) = Inr (e', c') \<and> entry_round_trip (Group g) e')"
proof -
  from assms have it: "1 \<le> iterations g" "iterations g < 2 ^ 53"
    and vs: "list_all valid_step (group_steps g)" by simp_all
  define b0 where "b0 = (create_swim_workout (builder_name b) (builder_pool_length b))
            \<lparr>step_order := 0\<rparr>"
  from repeat_fn_valid [OF vs, of b0] obtain inner wss where
    1: "repeat_fn (group_steps g) b0 = Inr inner" "builder_steps inner = builder_steps b0 @ wss"
    and 2: "list_all2 (\<lambda>s ws. \<forall>c. \<exists>s'. convert_garmin_step c (step_to_dict exclude_none ws) = Inr (Step s', Suc c)
                              \<and> step_round_trip s s') (group_steps g) wss"
    by blast
  have w: "builder_steps inner = wss" using 1 by (simp add: b0_def create_swim_workout_def)
  have f: "float_of_int (iterations g) = Inr (iterations g)"
    using it by (intro float_of_int_exact) simp
  define gs where "gs = empty_step\<lparr>stepOrder := Val (step_order b + 1),
                         stepType := Val (step_type_dict REPEAT),
                         numberOfIterations := Val (iterations g),
                         endCondition := Val iterations_condition,
                         endConditionValue := Val (of_int (iterations g)),
                         smartRepeat := Val False\<rparr>"
  define b' where "b' = b\<lparr>estimated_duration :=
        estimated_duration b + estimated_duration inner * iterations g,
      step_order := step_order b + 1,
      builder_steps := builder_steps b @ [WireStep gs (Val (renumber 1 wss))]\<rparr>"
  have r: "repeat (iterations g) (repeat_fn (group_steps g)) b = Inr b'"
    using 1(1) f by (simp add: repeat_def b0_def [symmetric] bind_err_def Let_def w gs_def b'_def)
  have p: "builder_steps b' = builder_steps b @ [WireStep gs (Val (renumber 1 wss))]"
    "builder_name b' = builder_name b" "builder_pool_length b' = builder_pool_length b"
    by (simp_all add: b'_def)
  have c: "\<exists>e' c'. convert_garmin_step c (step_to_dict exclude_none (WireStep gs (Val (renumber 1 wss))))
        = Inr (e', c')
      \<and> entry_round_trip (Group g) e'" for c
  proof -
    from convert_leaves [OF 2, of "Suc c"] obtain ss' where
      3: "convert_garmin_steps (Suc c) (steps_to_dict exclude_none wss) = Inr (map Step ss', Suc c + length wss)"
        "list_all2 step_round_trip (group_steps g) ss'"
      by blast
    define G where "G = \<lparr>group_id = ''step-'' @ str_int (int (Suc c)), group_step_type = REPEAT,
        iterations = iterations g, group_steps = ss'\<rparr>"
    have "RepeatGroup_init (''step-'' @ str_int (int (Suc c))) (Some (iterations g)) (map Step ss')
        = Inr G"
      using it by (simp add: RepeatGroup_init_def validate_steps_map_Step bind_err_def G_def)
    then have "convert_garmin_step c (step_to_dict exclude_none (WireStep gs (Val (renumber 1 wss))))
        = Inr (Group G, Suc c + length wss)"
      using 3(1)
      by (simp add: gs_def empty_step_def fields_to_dict_def dump_field_def get_default_def
          step_type_dict_def Let_def steps_to_dict_renumber convert_renumber bind_err_def)
    moreover have "entry_round_trip (Group g) (Group G)"
      using 3(2) by (simp add: G_def)
    ultimately show ?thesis by blast
  qed
  from r p c show ?thesis by blast
qed

lemma add_step_entry:
  assumes "valid_step s"
  shows "\<exists>b' ws. add_step b s = Inr b'
     \<and> builder_steps b' = builder_steps b @ [ws]
     \<and> builder_name b' = builder_name b \<and> builder_pool_length b' = builder_pool_length b
     \<and> (\<forall>c. \<exists>e' c'. convert_garmin_step c (step_to_dict exclude_none ws) = Inr (e', c') \<and> entry_round_trip (Step s) e')"
proof -
  from add_step_valid [OF assms, of b exclude_none] obtain b' ws where
    1: "add_step b s = Inr b'" "builder_steps b' = builder_steps b @ [ws]"
      "builder_name b' = builder_name b" "builder_pool_length b' = builder_pool_length b"
    and 2: "\<forall>c. \<exists>s'. convert_garmin_step c (step_to_dict exclude_none ws) = Inr (Step s', Suc c) \<and> step_round_trip s s'"
    by blast
  have "\<exists>e' c'. convert_garmin_step c (step_to_dict exclude_none ws) = Inr (e', c') \<and> entry_round_trip (Step s) e'" for c
  proof -
    from 2 obtain s' where "convert_garmin_step c (step_to_dict exclude_none ws) = Inr (Step s', Suc c)"
      "step_round_trip s s'" by blast
    then have "convert_garmin_step c (step_to_dict exclude_none ws) = Inr (Step s', Suc c)
        \<and> entry_round_trip (Step s) (Step s')" by simp
    then show ?thesis by blast
  qed
  with 1 show ?thesis by blast
qed

lemma add_entries_valid:
  assumes "list_all valid_entry es"
  shows "\<exists>b' wss. add_entries es b = Inr b' \<and> builder_steps b' = builder_steps b @ wss
     \<and> builder_name b' = builder_name b \<and> builder_pool_length b' = builder_pool_length b
     \<and> list_all2 (\<lambda>e ws. \<forall>c. \<exists>e' c'. convert_garmin_step c (step_to_dict exclude_none ws) = Inr (e', c')
                              \<and> entry_round_trip e e') es wss"
  using assms
proof (induction es arbitrary: b)
  case Nil
  then show ?case by simp
next
  case (Cons e es)
  then have v: "valid_entry e" and vs: "list_all valid_entry es" by simp_all
  have "\<exists>b1 ws. add_entries [e] b = Inr b1 \<and> builder_steps b1 = builder_steps b @ [ws]
     \<and> builder_name b1 = builder_name b \<and> builder_pool_length b1 = builder_pool_length b
     \<and> (\<forall>c. \<exists>e' c'. convert_garmin_step c (step_to_dict exclude_none ws) = Inr (e', c') \<and> entry_round_trip e e')"
  proof (cases e)
    case (Step s)
    with v have "valid_step s" by simp
    from add_step_entry [OF this, of b exclude_none] Step show ?thesis
      by (auto simp: bind_err_def)
  next
    case (Group g)
    with v have "valid_entry (Group g)" by simp
    from repeat_valid [OF this, of b exclude_none] Group show ?thesis
      by (auto simp: bind_err_def)
  qed
  then obtain b1 ws where
    1: "add_entries [e] b = Inr b1" "builder_steps b1 = builder_steps b @ [ws]"
      "builder_name b1 = builder_name b" "builder_pool_length b1 = builder_pool_length b"
    and 2: "\<forall>c. \<exists>e' c'. convert_garmin_step c (step_to_dict exclude_none ws) = Inr (e', c') \<and> entry_round_trip e e'"
    by blast
  from Cons.IH [OF vs, of b1] obtain b' wss where
    3: "add_entries es b1 = Inr b'" "builder_steps b' = builder_steps b1 @ wss"
      "builder_name b' = builder_name b1" "builder_pool_length b' = builder_pool_length b1"
    and 4: "list_all2 (\<lambda>e ws. \<forall>c. \<exists>e' c'. convert_garmin_step c (step_to_dict exclude_none ws) = Inr (e', c')
                              \<and> entry_round_trip e e') es wss"
    by blast
  have "add_entries (e # es) b = Inr b'"
    using 1(1) 3(1) by (cases e) (auto simp: bind_err_def split: sum.splits)
  moreover have "builder_steps b' = builder_steps b @ (ws # wss)" using 1 3 by simp
  moreover have "builder_name b' = builder_name b" "builder_pool_length b' = builder_pool_length b"
    using 1 3 by simp_all
  ultimately show ?case using 2 4 by (intro exI [of _ b'] exI [of _ "ws # wss"]) simp
qed


lemma workout_to_garmin_dict_valid:
  assumes "valid_workout w"
  shows "\<exists>gw. workout_to_garmin_dict w = Inr gw"
proof -
  from assms have "list_all valid_entry (steps w)" by (simp add: valid_workout_def)
  from add_entries_valid [OF this, of "create_swim_workout (name w) (pool_length w)"]
  obtain b' where "add_entries (steps w) (create_swim_workout (name w) (pool_length w)) = Inr b'"
    by blast
  then show ?thesis by (simp add: workout_to_garmin_dict_def bind_err_def)
qed

lemma valid_workout_example: "valid_workout workout_example"
  by (simp add: valid_workout_def workout_example_def group_example_def swim_step_def
      rest_step_def valid_step_def)

lemma overflow_workout_fails: "workout_to_garmin_dict overflow_workout = Inl OverflowError"
  by (simp add: workout_to_garmin_dict_def overflow_workout_def imported_step_def add_step_def
      warmup_def distance_step_def estimate_swim_time_overflow bind_err_def)

lemma path_old: "get_workout_path ''old-1'' = Path WORKOUT_DIR [''old-1.json'']"
  by (simp add: get_workout_path_def path_parts_def)

lemma path_dot_old: "get_workout_path ''./old-1'' = Path WORKOUT_DIR [''old-1.json'']"
  by (simp add: get_workout_path_def path_parts_def)

lemma path_new: "get_workout_path ''new-2'' = Path WORKOUT_DIR [''new-2.json'']"
  by (simp add: get_workout_path_def path_parts_def)

lemma path_sub: "get_workout_path ''a/b'' = Path WORKOUT_DIR [''a'', ''b.json'']"
  by (simp add: get_workout_path_def path_parts_def)

lemma path_abs: "get_workout_path ''//tmp/x'' = Path DoubleRoot [''tmp'', ''x.json'']"
  by (simp add: get_workout_path_def path_parts_def)

lemma get_workout_file_Some:
  "get_workout_file resolve i fs = Some w \<longleftrightarrow>
     (\<exists>f. resolve (get_workout_path i) = Some f \<and> fs f = Some w)"
  by (auto simp: get_workout_file_def path_exists_def read_workout_def Let_def
      split: option.splits)

lemma get_workout_file_None:
  "get_workout_file resolve i fs = None \<longleftrightarrow>
     (\<forall>f. resolve (get_workout_path i) = Some f \<longrightarrow> fs f = None)"
  by (auto simp: get_workout_file_def path_exists_def read_workout_def Let_def
      split: option.splits)

lemma replace_workout_id_file_result:
  assumes "resolve (get_workout_path old_id) = Some f_old" and "fs f_old = Some w"
    and "resolve (get_workout_path new_id) = Some f_new"
  shows "replace_workout_id_file resolve old_id new_id fs =
     Inr (True, fs(f_new \<mapsto> w\<lparr>workout_id := new_id\<rparr>, f_old := None))"
proof -
  have g: "get_workout_file resolve old_id fs = Some w"
    using assms(1,2) by (simp add: get_workout_file_Some)
  have e: "path_exists resolve (fs(f_new \<mapsto> w\<lparr>workout_id := new_id\<rparr>)) (get_workout_path old_id)"
    using assms(1,2) by (auto simp: path_exists_def)
  show ?thesis
    using assms e
    by (simp add: replace_workout_id_file_def g write_text_def unlink_def bind_err_def Let_def
        path_exists_def)
qed

lemma get_old_example: "get_workout_file flat_directory ''old-1'' files_example = Some workout_example"
  by (simp add: get_workout_file_Some path_old files_example_def)

lemma replace_workout_id_file_unwritable:
  "replace_workout_id_file flat_directory ''old-1'' ''a/b'' files_example = Inl OSError"
  by (simp add: replace_workout_id_file_def get_old_example write_text_def path_sub bind_err_def)

text \<open>
  The store by id is the files seen through their ids, on any set of ids that name
  files and name different files when they differ: there \<open>replace_workout_id\<close> on the
  store by id and \<open>replace_workout_id_file\<close> on the files return the same truth value
  and leave the same records.
\<close>

lemma store_of_get: "get_workout i (store_of resolve fs) = get_workout_file resolve i fs"
  by (simp add: get_workout_def store_of_def)

lemma store_of_replace:
  assumes inj: "\<And>i j. i \<in> P \<Longrightarrow> j \<in> P \<Longrightarrow>
      resolve (get_workout_path i) = resolve (get_workout_path j) \<Longrightarrow> i = j"
    and res: "\<And>i. i \<in> P \<Longrightarrow> resolve (get_workout_path i) \<noteq> None"
    and old: "old_id \<in> P" and new: "new_id \<in> P"
  shows "\<exists>fs'. replace_workout_id_file resolve old_id new_id fs =
        Inr (fst (replace_workout_id old_id new_id (store_of resolve fs)), fs')
     \<and> (\<forall>i \<in> P. store_of resolve fs' i =
           snd (replace_workout_id old_id new_id (store_of resolve fs)) i)"
proof (cases "get_workout_file resolve old_id fs")
  case None
  then show ?thesis
    by (simp add: replace_workout_id_file_def replace_workout_id_def store_of_get)
next
  case (Some w)
  then obtain f_old where o: "resolve (get_workout_path old_id) = Some f_old" "fs f_old = Some w"
    by (auto simp: get_workout_file_Some)
  from res [OF new] obtain f_new where n: "resolve (get_workout_path new_id) = Some f_new"
    by auto
  define fs' where "fs' = fs(f_new \<mapsto> w\<lparr>workout_id := new_id\<rparr>, f_old := None)"
  have r: "replace_workout_id_file resolve old_id new_id fs = Inr (True, fs')"
    unfolding fs'_def using o n by (rule replace_workout_id_file_result)
  have a: "replace_workout_id old_id new_id (store_of resolve fs) =
      (True, (store_of resolve fs)(new_id \<mapsto> w\<lparr>workout_id := new_id\<rparr>, old_id := None))"
    using Some by (auto simp: replace_workout_id_def store_of_get Let_def)
  have "store_of resolve fs' i =
      ((store_of resolve fs)(new_id \<mapsto> w\<lparr>workout_id := new_id\<rparr>, old_id := None)) i"
    if i: "i \<in> P" for i
  proof -
    from res [OF i] obtain f where f: "resolve (get_workout_path i) = Some f" by auto
    have s: "store_of resolve g i = g f" for g
      using f by (simp add: store_of_def get_workout_file_def path_exists_def read_workout_def
          Let_def domIff)
    have io: "i = old_id \<longleftrightarrow> f = f_old"
      using inj [OF i old] f o(1) by auto
    have inw: "i = new_id \<longleftrightarrow> f = f_new"
      using inj [OF i new] f n by auto
    show ?thesis
      by (simp add: s fs'_def io inw)
  qed
  with r a show ?thesis by simp
qed

subsection \<open>Domain model and record store\<close>

text \<open>
  C1. The total distance should leave REST steps out everywhere and multiply a group's
  child sum by its iterations. On a workout holding one group of 4 iterations of a
  100 m swim and a REST step whose \<open>distance_m\<close> is 20, the property returns 480,
  where the rule of the specification gives 400: inside a group the REST step is
  counted, at top level it is not.
\<close>

theorem total_distance_group_rest:
  "total_distance workout_example = 480 \<and> spec_total_distance workout_example = 400"
  by (simp add: total_distance_def spec_total_distance_def spec_step_distance_def
      workout_example_def group_example_def swim_step_def rest_step_def)

text \<open>
  C3 (as amended). Whenever the RepeatGroup constructor accepts its arguments, every
  child entry is a leaf step and none is a RepeatGroup: groups nest one level deep.
\<close>

theorem RepeatGroup_children_are_steps:
  "RepeatGroup_init i n es = Inr g \<Longrightarrow>
     es = map Step (group_steps g) \<and> (\<forall>e \<in> set es. \<forall>g'. e \<noteq> Group g')"
  by (auto simp: RepeatGroup_init_def bind_err_def split: option.splits if_splits sum.splits
      dest!: validate_steps_Inr)

theorem RepeatGroup_children_are_steps_witness:
  "RepeatGroup_init ''step-1'' (Some 4) [Step swim_step, Step rest_step] = Inr group_example
   \<and> [Step swim_step, Step rest_step] = map Step (group_steps group_example)"
proof -
  have h: "RepeatGroup_init ''step-1'' (Some 4) [Step swim_step, Step rest_step] = Inr group_example"
    by (simp add: RepeatGroup_init_def bind_err_def group_example_def)
  show ?thesis using h RepeatGroup_children_are_steps [OF h] by simp
qed

text \<open>
  C3, the claim as stated: a RepeatGroup with a RepeatGroup among its children is not
  constructible; the constructor rejects it with a validation error.
\<close>

theorem RepeatGroup_nested_rejected:
  "RepeatGroup_init ''step-1'' (Some 2) [Step swim_step, Group group_example] = Inl ValidationError"
  by (simp add: RepeatGroup_init_def bind_err_def)

text \<open>
  C6 (as amended). When a record exists under \<open>old_id\<close> and \<open>new_id\<close> names a file that
  can be written and is another file than the one \<open>old_id\<close> names,
  \<open>replace_workout_id\<close> returns success, afterwards nothing is found under \<open>old_id\<close>,
  and under \<open>new_id\<close> a workout is found with id \<open>new_id\<close> and the original name, pool
  length and steps. When no record exists under \<open>old_id\<close>, it returns failure and no
  file is changed.
\<close>

theorem replace_workout_id_file_moves_record:
  "(get_workout_file resolve old_id fs = Some w
      \<and> resolve (get_workout_path new_id) = Some f_new
      \<and> resolve (get_workout_path old_id) \<noteq> Some f_new \<longrightarrow>
      (\<exists>fs'. replace_workout_id_file resolve old_id new_id fs = Inr (True, fs')
         \<and> get_workout_file resolve old_id fs' = None
         \<and> (\<exists>w'. get_workout_file resolve new_id fs' = Some w'
               \<and> workout_id w' = new_id \<and> name w' = name w
               \<and> pool_length w' = pool_length w \<and> steps w' = steps w)))
   \<and> (get_workout_file resolve old_id fs = None \<longrightarrow>
        replace_workout_id_file resolve old_id new_id fs = Inr (False, fs))"
proof (intro conjI impI)
  assume a: "get_workout_file resolve old_id fs = Some w
      \<and> resolve (get_workout_path new_id) = Some f_new
      \<and> resolve (get_workout_path old_id) \<noteq> Some f_new"
  then obtain f_old where o: "resolve (get_workout_path old_id) = Some f_old" "fs f_old = Some w"
    by (auto simp: get_workout_file_Some)
  from a have n: "resolve (get_workout_path new_id) = Some f_new" and d: "f_old \<noteq> f_new"
    using o by auto
  define fs' where "fs' = fs(f_new \<mapsto> w\<lparr>workout_id := new_id\<rparr>, f_old := None)"
  have r: "replace_workout_id_file resolve old_id new_id fs = Inr (True, fs')"
    unfolding fs'_def using o n by (rule replace_workout_id_file_result)
  have 1: "get_workout_file resolve old_id fs' = None"
    using o by (simp add: get_workout_file_None fs'_def)
  have 2: "get_workout_file resolve new_id fs' = Some (w\<lparr>workout_id := new_id\<rparr>)"
    using n d by (simp add: get_workout_file_Some fs'_def)
  show "\<exists>fs'. replace_workout_id_file resolve old_id new_id fs = Inr (True, fs')
         \<and> get_workout_file resolve old_id fs' = None
         \<and> (\<exists>w'. get_workout_file resolve new_id fs' = Some w'
               \<and> workout_id w' = new_id \<and> name w' = name w
               \<and> pool_length w' = pool_length w \<and> steps w' = steps w)"
    using r 1 2 by (intro exI [of _ fs'] conjI exI [of _ "w\<lparr>workout_id := new_id\<rparr>"]) simp_all
next
  assume "get_workout_file resolve old_id fs = None"
  then show "replace_workout_id_file resolve old_id new_id fs = Inr (False, fs)"
    by (simp add: replace_workout_id_file_def)
qed

theorem replace_workout_id_file_moves_record_witness:
  "get_workout_file flat_directory ''old-1'' files_example = Some workout_example
   \<and> flat_directory (get_workout_path ''new-2'') = Some (Path WORKOUT_DIR [''new-2.json''])
   \<and> flat_directory (get_workout_path ''old-1'') \<noteq> Some (Path WORKOUT_DIR [''new-2.json''])
   \<and> (\<exists>fs'. replace_workout_id_file flat_directory ''old-1'' ''new-2'' files_example = Inr (True, fs')
         \<and> get_workout_file flat_directory ''old-1'' fs' = None
         \<and> (\<exists>w'. get_workout_file flat_directory ''new-2'' fs' = Some w'
               \<and> workout_id w' = ''new-2'' \<and> name w' = name workout_example
               \<and> pool_length w' = pool_length workout_example
               \<and> steps w' = steps workout_example))
   \<and> get_workout_file flat_directory ''old-1'' Map.empty = None
   \<and> replace_workout_id_file flat_directory ''old-1'' ''new-2'' Map.empty = Inr (False, Map.empty)"
proof -
  have n: "flat_directory (get_workout_path ''new-2'') = Some (Path WORKOUT_DIR [''new-2.json''])"
    by (simp add: path_new)
  have d: "flat_directory (get_workout_path ''old-1'') \<noteq> Some (Path WORKOUT_DIR [''new-2.json''])"
    by (simp add: path_old)
  have e: "get_workout_file flat_directory ''old-1'' Map.empty = None"
    by (simp add: get_workout_file_None)
  show ?thesis
    using get_old_example n d e
      replace_workout_id_file_moves_record [where resolve = flat_directory and old_id = "''old-1''"
        and new_id = "''new-2''" and fs = files_example and w = workout_example
        and f_new = "Path WORKOUT_DIR [''new-2.json'']"]
      replace_workout_id_file_moves_record [where resolve = flat_directory and old_id = "''old-1''"
        and new_id = "''new-2''" and fs = Map.empty and w = workout_example
        and f_new = "Path WORKOUT_DIR [''new-2.json'']"]
    by simp
qed

text \<open>
  C6, the claim as stated: the ids \<open>old-1\<close> and \<open>./old-1\<close> differ and name the same
  file; the call returns success, the file is written and then deleted, and nothing
  is found under the new id.
\<close>

theorem replace_workout_id_file_alias_destroys:
  "''old-1'' \<noteq> ''./old-1''
   \<and> get_workout_file flat_directory ''old-1'' files_example = Some workout_example
   \<and> replace_workout_id_file flat_directory ''old-1'' ''./old-1'' files_example
       = Inr (True, Map.empty)
   \<and> get_workout_file flat_directory ''./old-1'' Map.empty = None"
proof -
  have "replace_workout_id_file flat_directory ''old-1'' ''./old-1'' files_example
      = Inr (True, files_example(Path WORKOUT_DIR [''old-1.json''] \<mapsto>
            workout_example\<lparr>workout_id := ''./old-1''\<rparr>, Path WORKOUT_DIR [''old-1.json''] := None))"
    by (rule replace_workout_id_file_result) (simp_all add: path_old path_dot_old files_example_def)
  then have "replace_workout_id_file flat_directory ''old-1'' ''./old-1'' files_example
      = Inr (True, Map.empty)"
    by (simp add: files_example_def)
  then show ?thesis
    using get_old_example by (simp add: get_workout_file_None)
qed

text \<open>
  C9. With the same old and new id, and a record stored under it, \<open>replace_workout_id\<close>
  returns success and leaves no record under that id: the workout is written and the
  same file is then deleted.
\<close>

theorem replace_workout_id_same_id_destroys:
  "get_workout x st = Some w \<Longrightarrow>
     fst (replace_workout_id x x st) = True
     \<and> snd (replace_workout_id x x st) = st(x := None)
     \<and> get_workout x (snd (replace_workout_id x x st)) = None"
  by (simp add: replace_workout_id_def get_workout_def Let_def)

theorem replace_workout_id_same_id_destroys_witness:
  "get_workout ''old-1'' [''old-1'' \<mapsto> workout_example] = Some workout_example
   \<and> fst (replace_workout_id ''old-1'' ''old-1'' [''old-1'' \<mapsto> workout_example]) = True
   \<and> get_workout ''old-1'' (snd (replace_workout_id ''old-1'' ''old-1'' [''old-1'' \<mapsto> workout_example])) = None"
proof -
  have h: "get_workout ''old-1'' [''old-1'' \<mapsto> workout_example] = Some workout_example"
    by (simp add: get_workout_def)
  show ?thesis using h replace_workout_id_same_id_destroys [OF h] by (simp add: get_workout_def)
qed

subsection \<open>Wire to domain conversion\<close>

text \<open>
  C4 (as amended). For a wire leaf step that \<open>convert_garmin_step\<close> converts, with
  end-condition key \<open>k\<close>: for \<open>distance\<close> the step's \<open>distance_m\<close> is the
  \<open>endConditionValue\<close> (100 when the key is absent) truncated toward zero, as
  Python's \<open>int\<close> does, and the duration is unset; for \<open>time\<close> or \<open>fixed.rest\<close> the
  duration is the truncated value and the distance is 0; for any other key the
  distance is 0 and the duration is unset.
\<close>

theorem convert_garmin_step_end_condition:
  assumes "convert_garmin_step c ws = Inr (Step s, c')"
    and "endCondition (attrs ws) = Val ec" and "conditionTypeKey ec = Val k"
  shows "(k = ''distance'' \<longrightarrow>
            (\<exists>v. get_default (endConditionValue (attrs ws)) 100 = Some v
                 \<and> distance_m s = trunc v)
            \<and> duration_seconds s = None)
       \<and> (k = ''time'' \<or> k = ''fixed.rest'' \<longrightarrow>
            (\<exists>v. get_default (endConditionValue (attrs ws)) 100 = Some v
                 \<and> duration_seconds s = Some (trunc v))
            \<and> distance_m s = 0)
       \<and> (k \<noteq> ''distance'' \<and> k \<noteq> ''time'' \<and> k \<noteq> ''fixed.rest'' \<longrightarrow>
            distance_m s = 0 \<and> duration_seconds s = None)"
proof (cases ws)
  case (WireStep g inner)
  with assms(1) have conv: "convert_garmin_step c (WireStep g inner) = Inr (Step s, c')"
    by simp
  from convert_leaf_regular [OF conv] obtain tid
    where r: "regular_step (''step-'' @ str_int (int (Suc c))) tid g = Inr s"
    by blast
  have e: "get_default (endCondition g) empty_condition = Some ec"
    and k: "get_default (conditionTypeKey ec) ''distance'' = Some k"
    using assms(2,3) WireStep by (simp_all add: get_default_def)
  from regular_step_end_condition [OF r] e k WireStep show ?thesis
    by auto
qed

theorem convert_garmin_step_end_condition_witness:
  "convert_garmin_step 0 (wire_leaf 3 ''distance'' (Val (4572 / 25)) 5)
     = Inr (Step (imported_step INTERVAL FREESTYLE 182 None), 1)
   \<and> trunc (4572 / 25) = 182
   \<and> convert_garmin_step 0 (wire_leaf 5 ''fixed.rest'' (Val 20) 5)
     = Inr (Step (imported_step REST FREESTYLE 0 (Some 20)), 1)
   \<and> convert_garmin_step 0 (wire_leaf 5 ''lap.button'' Null 5)
     = Inr (Step (imported_step REST FREESTYLE 0 None), 1)"
proof -
  have a: "convert_garmin_step 0 (wire_leaf 3 ''distance'' (Val (4572 / 25)) 5)
      = Inr (Step (imported_step INTERVAL FREESTYLE 182 None), 1)"
    by (simp add: leaf_eval)
  have b: "convert_garmin_step 0 (wire_leaf 5 ''fixed.rest'' (Val 20) 5)
      = Inr (Step (imported_step REST FREESTYLE 0 (Some 20)), 1)"
    by (simp add: leaf_eval)
  have c: "convert_garmin_step 0 (wire_leaf 5 ''lap.button'' Null 5)
      = Inr (Step (imported_step REST FREESTYLE 0 None), 1)"
    by (simp add: leaf_eval)
  have e: "endCondition (attrs (wire_leaf t k v i))
      = Val (empty_condition\<lparr>conditionTypeKey := Val k\<rparr>)" for t k v i
    by (simp add: wire_leaf_def empty_step_def)
  have k: "conditionTypeKey (empty_condition\<lparr>conditionTypeKey := Val k\<rparr>) = Val k" for k
    by simp
  show ?thesis
    using a b c trunc_yards
      convert_garmin_step_end_condition [OF a e k]
      convert_garmin_step_end_condition [OF b e k]
      convert_garmin_step_end_condition [OF c e k]
    by simp
qed

text \<open>
  C4, the claim as stated: a distance of 182.88 m (200 yards) is imported as 182, not
  as the nearest integer 183.
\<close>

theorem convert_garmin_step_truncates_not_rounds:
  "convert_garmin_step 0 (wire_leaf 3 ''distance'' (Val (4572 / 25)) 5)
     = Inr (Step (imported_step INTERVAL FREESTYLE 182 None), 1)
   \<and> distance_m (imported_step INTERVAL FREESTYLE 182 None) = 182
   \<and> round (4572 / 25 :: rat) = 183"
  using round_yards by (simp add: leaf_eval)



text \<open>
  C10. For a wire leaf step that \<open>convert_garmin_step\<close> converts: when the
  \<open>endConditionValue\<close> key is absent the value used is 100, so a distance step gets
  \<open>distance_m = 100\<close> and a \<open>time\<close> or \<open>fixed.rest\<close> step gets
  \<open>duration_seconds = 100\<close>; when the step has no \<open>endCondition\<close> object it is
  converted as a distance step.
\<close>

theorem convert_garmin_step_missing_end_value:
  assumes "convert_garmin_step c ws = Inr (Step s, c')"
  shows "(endConditionValue (attrs ws) = Absent \<longrightarrow>
            (\<forall>ec. endCondition (attrs ws) = Val ec \<longrightarrow>
               (conditionTypeKey ec = Val ''distance'' \<longrightarrow> distance_m s = 100)
             \<and> (conditionTypeKey ec = Val ''time'' \<or> conditionTypeKey ec = Val ''fixed.rest'' \<longrightarrow>
                  duration_seconds s = Some 100)))
       \<and> (endCondition (attrs ws) = Absent \<longrightarrow>
            (\<exists>v. get_default (endConditionValue (attrs ws)) 100 = Some v
                 \<and> distance_m s = trunc v)
            \<and> duration_seconds s = None)"
proof (cases ws)
  case (WireStep g inner)
  with assms(1) have conv: "convert_garmin_step c (WireStep g inner) = Inr (Step s, c')"
    by simp
  from convert_leaf_regular [OF conv] obtain tid
    where r: "regular_step (''step-'' @ str_int (int (Suc c))) tid g = Inr s"
    by blast
  have t: "trunc 100 = 100" by (simp add: trunc_def)
  from regular_step_end_condition [OF r] t WireStep show ?thesis
    by (auto simp: get_default_def empty_condition_def)
qed

theorem convert_garmin_step_missing_end_value_witness:
  "convert_garmin_step 0 (wire_leaf 4 ''distance'' Absent 2)
     = Inr (Step (imported_step RECOVERY BACKSTROKE 100 None), 1)
   \<and> convert_garmin_step 0 (wire_leaf 5 ''fixed.rest'' Absent 5)
     = Inr (Step (imported_step REST FREESTYLE 0 (Some 100)), 1)
   \<and> convert_garmin_step 0 (WireStep (empty_step\<lparr>endConditionValue := Val 50\<rparr>) Absent)
     = Inr (Step (imported_step INTERVAL FREESTYLE 50 None), 1)"
proof -
  have a: "convert_garmin_step 0 (wire_leaf 4 ''distance'' Absent 2)
      = Inr (Step (imported_step RECOVERY BACKSTROKE 100 None), 1)"
    by (simp add: leaf_eval)
  have b: "convert_garmin_step 0 (wire_leaf 5 ''fixed.rest'' Absent 5)
      = Inr (Step (imported_step REST FREESTYLE 0 (Some 100)), 1)"
    by (simp add: leaf_eval)
  have c: "convert_garmin_step 0 (WireStep (empty_step\<lparr>endConditionValue := Val 50\<rparr>) Absent)
      = Inr (Step (imported_step INTERVAL FREESTYLE 50 None), 1)"
    by (simp add: leaf_eval empty_stepType_def str_int_def str_nat.simps)
  show ?thesis
    using a b c
      convert_garmin_step_missing_end_value [OF a]
      convert_garmin_step_missing_end_value [OF b]
      convert_garmin_step_missing_end_value [OF c]
    by simp
qed

subsection \<open>Round trip, upload flow and builder\<close>




text \<open>
  C7. In the upload flow for a stored workout: when the conversion fails the flow ends
  with the conversion error, no remote call is made and the world is unchanged; when
  the upload fails the flow ends with the upload's error, the only remote call is the
  upload and the local store is unchanged; when the upload succeeds with a new,
  different id the old remote record is deleted and the local store is the result of
  \<open>replace_workout_id\<close>, whatever the remote deletion answers; and the local store
  changes only if the conversion and the upload have succeeded.
\<close>

theorem upload_workout_flow:
  assumes "get_workout workout_id' (local_store w) = Some workout"
  shows "(\<forall>e. workout_to_garmin_dict workout = Inl e \<longrightarrow>
            upload_workout env workout_id' w = (ConversionFailed e, w))
       \<and> (\<forall>gw. workout_to_garmin_dict workout = Inr gw \<and> \<not> success (upload_response env gw) \<longrightarrow>
            upload_workout env workout_id' w =
              (UploadFailed (error_message (upload_response env gw)),
               w\<lparr>remote_calls := remote_calls w @ [UploadCall gw]\<rparr>))
       \<and> (\<forall>gw new_id. workout_to_garmin_dict workout = Inr gw
              \<and> success (upload_response env gw)
              \<and> result_workout_id (upload_response env gw) = Some new_id
              \<and> new_id \<noteq> [] \<and> workout_id' \<noteq> [] \<and> new_id \<noteq> workout_id' \<longrightarrow>
            upload_workout env workout_id' w =
              (Returned (upload_response env gw),
               \<lparr>local_store = snd (replace_workout_id workout_id' new_id (local_store w)),
                remote_calls = remote_calls w @ [UploadCall gw, DeleteCall workout_id']\<rparr>))
       \<and> (local_store (snd (upload_workout env workout_id' w)) \<noteq> local_store w \<longrightarrow>
            (\<exists>gw. workout_to_garmin_dict workout = Inr gw \<and> success (upload_response env gw)))"
proof (intro conjI allI impI)
  fix e assume "workout_to_garmin_dict workout = Inl e"
  with assms show "upload_workout env workout_id' w = (ConversionFailed e, w)"
    by (simp add: upload_workout_def)
next
  fix gw assume "workout_to_garmin_dict workout = Inr gw \<and> \<not> success (upload_response env gw)"
  with assms show "upload_workout env workout_id' w =
      (UploadFailed (error_message (upload_response env gw)),
       w\<lparr>remote_calls := remote_calls w @ [UploadCall gw]\<rparr>)"
    by (simp add: upload_workout_def Let_def)
next
  fix gw new_id
  assume "workout_to_garmin_dict workout = Inr gw
      \<and> success (upload_response env gw)
      \<and> result_workout_id (upload_response env gw) = Some new_id
      \<and> new_id \<noteq> [] \<and> workout_id' \<noteq> [] \<and> new_id \<noteq> workout_id'"
  with assms show "upload_workout env workout_id' w =
      (Returned (upload_response env gw),
       \<lparr>local_store = snd (replace_workout_id workout_id' new_id (local_store w)),
        remote_calls = remote_calls w @ [UploadCall gw, DeleteCall workout_id']\<rparr>)"
    by (auto simp: upload_workout_def Let_def truthy_str_def)
next
  assume a: "local_store (snd (upload_workout env workout_id' w)) \<noteq> local_store w"
  show "\<exists>gw. workout_to_garmin_dict workout = Inr gw \<and> success (upload_response env gw)"
  proof (cases "workout_to_garmin_dict workout")
    case (Inl e)
    with assms a show ?thesis by (simp add: upload_workout_def)
  next
    case (Inr gw)
    with assms a show ?thesis
      by (cases "success (upload_response env gw)") (simp_all add: upload_workout_def Let_def)
  qed
qed

theorem upload_workout_flow_witness:
  "upload_workout accepting_remote ''big'' (world_example overflow_workout)
     = (ConversionFailed OverflowError, world_example overflow_workout)
   \<and> fst (upload_workout failing_remote ''old-1'' (world_example workout_example))
     = UploadFailed (Some ''Not authenticated'')
   \<and> local_store (snd (upload_workout failing_remote ''old-1'' (world_example workout_example)))
     = local_store (world_example workout_example)
   \<and> get_workout ''new-2''
       (local_store (snd (upload_workout accepting_remote ''old-1'' (world_example workout_example))))
     = Some (workout_example\<lparr>workout_id := ''new-2''\<rparr>)
   \<and> get_workout ''old-1''
       (local_store (snd (upload_workout accepting_remote ''old-1'' (world_example workout_example))))
     = None"
proof -
  have g1: "get_workout ''big'' (local_store (world_example overflow_workout)) = Some overflow_workout"
    by (simp add: get_workout_def world_example_def overflow_workout_def)
  have g2: "get_workout ''old-1'' (local_store (world_example workout_example))
      = Some workout_example"
    by (simp add: get_workout_def world_example_def workout_example_def)
  from workout_to_garmin_dict_valid [OF valid_workout_example]
  obtain gw where gw: "workout_to_garmin_dict workout_example = Inr gw" ..
  from upload_workout_flow [OF g1, of accepting_remote] overflow_workout_fails
  have 1: "upload_workout accepting_remote ''big'' (world_example overflow_workout)
      = (ConversionFailed OverflowError, world_example overflow_workout)"
    by simp
  from upload_workout_flow [OF g2, of failing_remote] gw
  have 2: "upload_workout failing_remote ''old-1'' (world_example workout_example)
      = (UploadFailed (Some ''Not authenticated''),
         (world_example workout_example)\<lparr>remote_calls :=
            remote_calls (world_example workout_example) @ [UploadCall gw]\<rparr>)"
    by (simp add: failing_remote_def)
  from upload_workout_flow [OF g2, of accepting_remote] gw
  have 3: "upload_workout accepting_remote ''old-1'' (world_example workout_example)
      = (Returned (upload_response accepting_remote gw),
         \<lparr>local_store = snd (replace_workout_id ''old-1'' ''new-2''
                               (local_store (world_example workout_example))),
          remote_calls = remote_calls (world_example workout_example)
                           @ [UploadCall gw, DeleteCall ''old-1'']\<rparr>)"
    by (simp add: accepting_remote_def)
  have 4: "local_store (world_example workout_example) = [''old-1'' \<mapsto> workout_example]"
    by (simp add: world_example_def workout_example_def)
  show ?thesis
    unfolding 1 2 3
    by (simp add: 4 replace_workout_id_def get_workout_def Let_def)
qed

text \<open>
  C8. The builder chain create("Test"), warmup(300), repeat(4, swim(100, zone 2) then
  rest(20)), cooldown(200), build() yields the estimated duration 1160 seconds: the
  swim time estimates of 300, 100 and 200 metres are 360, 120 and 240 seconds.
\<close>

theorem scenario_duration:
  "map_sum id estimatedDurationInSecs scenario_workout = Inr (Val 1160)
   \<and> estimate_swim_time 300 = Inr 360 \<and> estimate_swim_time 100 = Inr 120
   \<and> estimate_swim_time 200 = Inr 240"
  by (simp add: scenario_workout_def warmup_def cooldown_def swim_def rest_def repeat_def
      distance_step_def build_def create_swim_workout_def estimate_examples float_of_int_exact
      bind_err_def Let_def)

end
